theory Spec2Isabelle
  imports Complex_Main "HOL-Library.Log_Nat"
begin

section \<open>JavaScript values used by the engine\<close>

text \<open>
  A JavaScript \<^verbatim>\<open>number\<close> is modelled as either a finite value or \<^verbatim>\<open>NaN\<close>.
  Finite values are carried as exact reals.  The EMAs are computed exactly: the
  rounding of their sums, products and quotients to IEEE doubles, and overflow to an
  infinity, are outside this model.  The bound of the touch band is the exception: the
  flag stored for a tick depends on it to the last place, so its product is rounded to
  a double as the source computes it (see \<open>double_round\<close> below).  \<^verbatim>\<open>NaN\<close> is kept,
  since the source produces it whenever it reads past the end of an array and adds the
  result.
\<close>

datatype number = Num real | NaN

fun js_add :: "number \<Rightarrow> number \<Rightarrow> number" where
  "js_add (Num a) (Num b) = Num (a + b)"
| "js_add _ _ = NaN"

fun js_sub :: "number \<Rightarrow> number \<Rightarrow> number" where
  "js_sub (Num a) (Num b) = Num (a - b)"
| "js_sub _ _ = NaN"

fun js_mul :: "number \<Rightarrow> number \<Rightarrow> number" where
  "js_mul (Num a) (Num b) = Num (a * b)"
| "js_mul _ _ = NaN"

text \<open>
  Division: the only divisors in the source are \<^verbatim>\<open>period + 1\<close> and \<^verbatim>\<open>period\<close>, and
  the only division by zero it can perform is \<^verbatim>\<open>0 / 0\<close> (an empty sum over a period
  of 0), which is \<^verbatim>\<open>NaN\<close>.
\<close>

fun js_div :: "number \<Rightarrow> number \<Rightarrow> number" where
  "js_div (Num a) (Num b) = (if b = 0 then NaN else Num (a / b))"
| "js_div _ _ = NaN"

fun js_abs :: "number \<Rightarrow> number" where
  "js_abs (Num a) = Num \<bar>a\<bar>"
| "js_abs NaN = NaN"

text \<open>Comparisons with \<^verbatim>\<open>NaN\<close> are false.\<close>

fun js_gt :: "number \<Rightarrow> number \<Rightarrow> bool" where
  "js_gt (Num a) (Num b) = (a > b)"
| "js_gt _ _ = False"

fun js_le :: "number \<Rightarrow> number \<Rightarrow> bool" where
  "js_le (Num a) (Num b) = (a \<le> b)"
| "js_le _ _ = False"

subsection \<open>The product of two doubles\<close>

text \<open>
  The literal \<^verbatim>\<open>0.00015\<close> denotes the double nearest to it, which is slightly
  smaller: \<open>5534023222112865 / 2 ^ 65\<close>.
\<close>

definition double_0_00015 :: real where
  "double_0_00015 = 5534023222112865 / 2 ^ 65"

text \<open>Rounding to the nearest integer, a tie going to the even one.\<close>

definition rne :: "real \<Rightarrow> int" where
  "rne y =
     (let f = \<lfloor>y\<rfloor>; r = y - of_int f
      in if r < 1 / 2 then f else if 1 / 2 < r then f + 1 else if even f then f else f + 1)"

text \<open>
  The exponent \<open>e\<close> of a positive \<open>x\<close>, for which \<open>2 ^ e \<le> x < 2 ^ (e + 1)\<close>, read off
  the number of bits of the integer part of \<open>x\<close>, or of \<open>1 / x\<close> when \<open>x < 1\<close>.
\<close>

definition binade :: "real \<Rightarrow> int" where
  "binade x = (if 1 \<le> x then bitlen \<lfloor>x\<rfloor> - 1 else - bitlen (\<lceil>1 / x\<rceil> - 1))"

text \<open>
  Rounding a real to the nearest IEEE double (binary64, round to nearest, ties to
  even): the doubles of exponent \<open>e\<close> are the multiples of \<open>2 ^ (e - 52)\<close>, and below
  \<open>2 ^ (- 1022)\<close> the subnormal ones are the multiples of \<open>2 ^ (- 1074)\<close>.  A result beyond
  the largest double, which the source would turn into an infinity, is outside the
  model.
\<close>

definition double_round :: "real \<Rightarrow> real" where
  "double_round x =
     (if x = 0 then 0
      else (let e = max (binade \<bar>x\<bar>) (- 1022); ulp = 2 powi (e - 52)
            in ulp * of_int (rne (x / ulp))))"

text \<open>The product \<^verbatim>\<open>a * b\<close> of two doubles, as a double.\<close>

fun js_mul_double :: "number \<Rightarrow> number \<Rightarrow> number" where
  "js_mul_double (Num a) (Num b) = Num (double_round (a * b))"
| "js_mul_double _ _ = NaN"

subsection \<open>Undefined values and arrays\<close>

text \<open>
  \<^verbatim>\<open>undefined\<close> is \<open>None\<close>.  In arithmetic and in comparisons \<^verbatim>\<open>undefined\<close> is
  converted to \<^verbatim>\<open>NaN\<close>.
\<close>

fun ToNumber :: "number option \<Rightarrow> number" where
  "ToNumber None = NaN"
| "ToNumber (Some v) = v"

text \<open>
  Reading an array: an index outside \<open>0 ..< length\<close> yields \<^verbatim>\<open>undefined\<close>.  A dense
  array is a list; an array with holes is a list of options, a hole being \<open>None\<close>.
\<close>

definition dense_at :: "'a list \<Rightarrow> int \<Rightarrow> 'a option" where
  "dense_at xs i = (if 0 \<le> i \<and> i < int (length xs) then Some (xs ! nat i) else None)"

definition sparse_at :: "'a option list \<Rightarrow> int \<Rightarrow> 'a option" where
  "sparse_at xs i = (if 0 \<le> i \<and> i < int (length xs) then xs ! nat i else None)"

text \<open>
  Writing \<^verbatim>\<open>xs[i] = v\<close> for a non-negative integer \<open>i\<close>: inside the array the entry
  is replaced; outside, the array grows to length \<open>i + 1\<close> and the entries between
  stay holes.
\<close>

definition array_set :: "'a option list \<Rightarrow> nat \<Rightarrow> 'a \<Rightarrow> 'a option list" where
  "array_set xs i v =
     (if i < length xs then xs[i := Some v]
      else xs @ replicate (i - length xs) None @ [Some v])"

section \<open>utils.ts: the EMA calculator\<close>

text \<open>
  The first loop of \<^verbatim>\<open>calculateEMA\<close>:
  \<^verbatim>\<open>for (let i = 0; i < period; i++) { sum += data[i]; }\<close>
\<close>

function sum_loop :: "number list \<Rightarrow> nat \<Rightarrow> nat \<Rightarrow> number \<Rightarrow> number" where
  "sum_loop data period i sum_v =
     (if i < period
      then sum_loop data period (Suc i) (js_add sum_v (ToNumber (dense_at data (int i))))
      else sum_v)"
  by pat_completeness auto
termination
  by (relation "measure (\<lambda>(data, period, i, sum_v). period - i)") auto

declare sum_loop.simps [simp del]

text \<open>
  The second loop:
  \<^verbatim>\<open>for (let i = period; i < data.length; i++) {
       const currentEma = (data[i] - prevEma) * k + prevEma;
       ema[i] = currentEma; prevEma = currentEma; }\<close>
\<close>

function ema_loop ::
  "number list \<Rightarrow> number \<Rightarrow> nat \<Rightarrow> number \<Rightarrow> number option list \<Rightarrow> number option list"
where
  "ema_loop data k i prevEma ema =
     (if i < length data
      then (let currentEma =
                  js_add (js_mul (js_sub (ToNumber (dense_at data (int i))) prevEma) k) prevEma
            in ema_loop data k (Suc i) currentEma (array_set ema i currentEma))
      else ema)"
  by pat_completeness auto
termination
  by (relation "measure (\<lambda>(data, k, i, prevEma, ema). length data - i)") auto

declare ema_loop.simps [simp del]

text \<open>
  \<^verbatim>\<open>calculateEMA(data, period)\<close>.  The period is a natural number, as at both call
  sites (20 and 100).  The assignment \<^verbatim>\<open>ema[period - 1] = prevEma\<close> writes an array
  element only when \<open>period - 1\<close> is an array index, that is when \<open>period > 0\<close>.
\<close>

definition calculateEMA :: "number list \<Rightarrow> nat \<Rightarrow> number option list" where
  "calculateEMA data period =
     (let k = js_div (Num 2) (Num (real period + 1));
          sum_v = sum_loop data period 0 (Num 0);
          prevEma = js_div sum_v (Num (real period));
          ema = (if period = 0 then [] else array_set [] (period - 1) prevEma)
      in ema_loop data k period prevEma ema)"

definition calculateSingleEMA :: "number \<Rightarrow> number \<Rightarrow> nat \<Rightarrow> number" where
  "calculateSingleEMA currentPrice prevEma period =
     (let k = js_div (Num 2) (Num (real period + 1))
      in js_add (js_mul (js_sub currentPrice prevEma) k) prevEma)"

section \<open>types.ts: the data model\<close>

record KlineData =
  time :: number
  open_p :: number
  high :: number
  low :: number
  close :: number

text \<open>
  \<^verbatim>\<open>PairStatus\<close>.  The numeric fields can hold \<^verbatim>\<open>undefined\<close> at run time (the last
  entry of an empty array), which is \<open>None\<close>; \<^verbatim>\<open>lastTouch\<close> is only ever \<^verbatim>\<open>null\<close>,
  also \<open>None\<close>.
\<close>

record PairStatus =
  symbol :: string
  price :: "number option"
  ema20 :: "number option"
  ema100 :: "number option"
  lastTouch :: "number option"
  isTouching :: bool
  history :: "KlineData list"

datatype AlertType = bullish_cross | bearish_cross | touch

record AlertEvent =
  alert_id :: string
  alert_symbol :: string
  timestamp :: int
  alert_price :: number
  alert_type :: AlertType

definition SYMBOLS_MAP :: "(string \<times> string) list" where
  "SYMBOLS_MAP =
     [(''icpusdt.p'', ''ICPUSDT''),
      (''btcusdt.p'', ''BTCUSDT''),
      (''beatusdt.p'', ''BEAMXUSDT''),
      (''ethusdt.p'', ''ETHUSDT''),
      (''zecusdt.p'', ''ZECUSDT''),
      (''strkusdt.p'', ''STRKUSDT''),
      (''hypeusdt.p'', ''HYPEUSDT''),
      (''taousdt.p'', ''TAOUSDT''),
      (''aaveusdt.p'', ''AAVEUSDT''),
      (''solusdt.p'', ''SOLUSDT''),
      (''asterusdt.p'', ''ASTRUSDT'')]"

section \<open>App.tsx: seeding the instrument store\<close>

text \<open>
  What one seed request yields inside the \<^verbatim>\<open>try\<close> block of \<^verbatim>\<open>initPairs\<close>: an
  exception (the fetch rejects, the body is not JSON), a JSON value that is not an
  array, or an array of rows.  A row is \<^verbatim>\<open>null\<close>, which cannot be indexed, or a value
  that can, given with its fields as \<^verbatim>\<open>d[0]\<close> and \<^verbatim>\<open>parseFloat\<close> of \<^verbatim>\<open>d[1]\<close> to
  \<^verbatim>\<open>d[4]\<close> read them (\<^verbatim>\<open>parseFloat\<close> yields a number or \<^verbatim>\<open>NaN\<close>).
\<close>

datatype row = NullRow | Row KlineData

datatype response = Throws | NotArray | Array "row list"

text \<open>
  \<^verbatim>\<open>data.map((d: any) => ({time: d[0], ...}))\<close>: the rows are read in order, and
  reading a \<^verbatim>\<open>null\<close> row throws, which is \<open>None\<close>.
\<close>

fun read_rows :: "row list \<Rightarrow> KlineData list option" where
  "read_rows [] = Some []"
| "read_rows (NullRow # ds) = None"
| "read_rows (Row k # ds) =
     (case read_rows ds of None \<Rightarrow> None | Some klines \<Rightarrow> Some (k # klines))"

text \<open>
  The record \<^verbatim>\<open>initPairs\<close> builds from the rows of one instrument: the closes, the
  two batch EMAs, and the last entry of each array (\<^verbatim>\<open>xs[xs.length - 1]\<close>).
\<close>

definition seeded :: "string \<Rightarrow> KlineData list \<Rightarrow> PairStatus" where
  "seeded rawSymbol klines =
     (let closes = map close klines;
          ema20Arr = calculateEMA closes 20;
          ema100Arr = calculateEMA closes 100;
          lastClose = dense_at closes (int (length closes) - 1);
          e20 = sparse_at ema20Arr (int (length ema20Arr) - 1);
          e100 = sparse_at ema100Arr (int (length ema100Arr) - 1)
      in \<lparr>symbol = rawSymbol, price = lastClose, ema20 = e20, ema100 = e100,
          lastTouch = None, isTouching = False, history = klines\<rparr>)"

text \<open>
  One iteration of \<^verbatim>\<open>for (const rawSymbol of PAIRS)\<close>.  The store is keyed by the
  exchange ticker (\<^verbatim>\<open>symbol\<close>); the record's \<^verbatim>\<open>symbol\<close> field holds \<^verbatim>\<open>rawSymbol\<close>.
  An exception, of the request or of reading a row, is caught and logged; a value that
  is not an array is skipped.
\<close>

definition init_pair ::
  "(string \<Rightarrow> response) \<Rightarrow> (string \<rightharpoonup> PairStatus) \<Rightarrow> string \<times> string
     \<Rightarrow> (string \<rightharpoonup> PairStatus)"
where
  "init_pair fetch initialData entry =
     (case entry of (rawSymbol, symbol_v) \<Rightarrow>
        (case fetch symbol_v of
           Array data \<Rightarrow>
             (case read_rows data of
                Some klines \<Rightarrow> initialData(symbol_v \<mapsto> seeded rawSymbol klines)
              | None \<Rightarrow> initialData)
         | NotArray \<Rightarrow> initialData
         | Throws \<Rightarrow> initialData))"

definition initPairs :: "(string \<Rightarrow> response) \<Rightarrow> (string \<rightharpoonup> PairStatus)" where
  "initPairs fetch = foldl (init_pair fetch) Map.empty SYMBOLS_MAP"

section \<open>App.tsx: the live tick handler\<close>

text \<open>
  The fields of a \<^verbatim>\<open>kline\<close> message the handler reads: \<^verbatim>\<open>msg.s\<close>, and of \<^verbatim>\<open>msg.k\<close>
  the fields \<^verbatim>\<open>t\<close>, \<^verbatim>\<open>o\<close>, \<^verbatim>\<open>h\<close>, \<^verbatim>\<open>l\<close>, \<^verbatim>\<open>c\<close> (through \<^verbatim>\<open>parseFloat\<close>) and
  \<^verbatim>\<open>x\<close>.  Any other message is ignored.
\<close>

record kline_msg =
  msg_s :: string
  k_t :: number
  k_o :: number
  k_h :: number
  k_l :: number
  k_c :: number
  k_x :: bool

datatype message = Kline kline_msg | Other

text \<open>\<^verbatim>\<open>String.prototype.toUpperCase\<close> on ASCII text.\<close>

definition upper_char :: "char \<Rightarrow> char" where
  "upper_char c =
     (let n = (of_char c :: nat) in if 97 \<le> n \<and> n \<le> 122 then char_of (n - 32) else c)"

definition toUpperCase :: "string \<Rightarrow> string" where
  "toUpperCase str = map upper_char str"

text \<open>
  The alert block of the handler,
  \<^verbatim>\<open>if (crossed || isTouching) { const lastAlert = alerts[0]; ... }\<close>,
  as a function of the values it reads: the variable \<^verbatim>\<open>alerts\<close> that the handler's
  closure sees (\<open>alerts_c\<close>), \<^verbatim>\<open>Date.now()\<close>, \<^verbatim>\<open>current.symbol\<close>, the close and
  the three flags \<^verbatim>\<open>crossed\<close>, \<^verbatim>\<open>isAbove\<close> and \<^verbatim>\<open>isTouching\<close> (here \<open>touching\<close>, the
  name \<open>isTouching\<close> being the field of the record).  Its result is the list of the
  calls of \<^verbatim>\<open>triggerAlert\<close> it makes, in order, each with its arguments.  An empty
  \<^verbatim>\<open>alerts\<close> has \<^verbatim>\<open>alerts[0]\<close> undefined, so that \<^verbatim>\<open>isDuplicate\<close> is falsy.
\<close>

definition alert_block ::
  "AlertEvent list \<Rightarrow> int \<Rightarrow> string \<Rightarrow> number \<Rightarrow> bool \<Rightarrow> bool \<Rightarrow> bool
     \<Rightarrow> (string \<times> number \<times> AlertType) list"
where
  "alert_block alerts_c now cur_symbol close_v crossed isAbove touching =
     (if crossed \<or> touching then
        (let isDuplicate =
           (case alerts_c of
              [] \<Rightarrow> False
            | lastAlert # _ \<Rightarrow>
                alert_symbol lastAlert = cur_symbol \<and> now - timestamp lastAlert < 300000)
         in if isDuplicate then []
            else if crossed
              then [(cur_symbol, close_v, if isAbove then bullish_cross else bearish_cross)]
            else if touching then [(cur_symbol, close_v, touch)]
            else [])
      else [])"

text \<open>
  The state updater passed to \<^verbatim>\<open>setPairsData\<close>.  It returns the new store together
  with the calls of \<^verbatim>\<open>triggerAlert\<close> made while it runs.  The bound
  \<^verbatim>\<open>newEma100 * 0.00015\<close> is the rounded product of the two doubles.  The difference
  \<^verbatim>\<open>newEma20 - newEma100\<close> is exact: between two doubles it is rounded only when one
  is more than twice the other, far outside the band.
\<close>

definition updater ::
  "AlertEvent list \<Rightarrow> int \<Rightarrow> kline_msg \<Rightarrow> (string \<rightharpoonup> PairStatus)
     \<Rightarrow> (string \<rightharpoonup> PairStatus) \<times> (string \<times> number \<times> AlertType) list"
where
  "updater alerts_c now m prev =
     (case prev (msg_s m) of
        None \<Rightarrow> (prev, [])
      | Some current \<Rightarrow>
          (let close_v = k_c m;
               isFinal = k_x m;
               prevEma20 = ToNumber (ema20 current);
               prevEma100 = ToNumber (ema100 current);
               newEma20 = calculateSingleEMA close_v prevEma20 20;
               newEma100 = calculateSingleEMA close_v prevEma100 100;
               diff = js_abs (js_sub newEma20 newEma100);
               threshold = js_mul_double newEma100 (Num double_0_00015);
               touching = js_le diff threshold;
               wasAbove = js_gt prevEma20 prevEma100;
               isAbove = js_gt newEma20 newEma100;
               crossed = (wasAbove \<noteq> isAbove);
               calls = alert_block alerts_c now (symbol current) close_v crossed isAbove touching;
               newHistory =
                 (if isFinal then
                    (let pushed = history current @
                           [\<lparr>time = k_t m, open_p = k_o m, high = k_h m, low = k_l m,
                             close = close_v\<rparr>]
                     in if length pushed > 200 then tl pushed else pushed)
                  else history current)
           in (prev(msg_s m \<mapsto>
                 current\<lparr>price := Some close_v, ema20 := Some newEma20,
                   ema100 := Some newEma100, isTouching := touching,
                   history := newHistory\<rparr>),
               calls)))"

text \<open>
  \<^verbatim>\<open>triggerAlert\<close>, as the update it queues on the alert log:
  \<^verbatim>\<open>setAlerts(prev => [newAlert, ...prev].slice(0, 50))\<close>.  The identifier drawn from
  \<^verbatim>\<open>Math.random\<close> is a parameter, and the clock is the one reading taken for the
  message.  The notification and the sound that follow write no state of the engine.
\<close>

definition triggerAlert ::
  "string \<Rightarrow> int \<Rightarrow> string \<Rightarrow> number \<Rightarrow> AlertType \<Rightarrow> AlertEvent list \<Rightarrow> AlertEvent list"
where
  "triggerAlert fresh_id now symbol_v price_v type_v prev =
     (let rawSymbol = toUpperCase symbol_v;
          newAlert = \<lparr>alert_id = fresh_id, alert_symbol = rawSymbol, timestamp = now,
                      alert_price = price_v, alert_type = type_v\<rparr>
      in take 50 (newAlert # prev))"

record AppState =
  pairsData :: "string \<rightharpoonup> PairStatus"
  alerts :: "AlertEvent list"

text \<open>
  \<^verbatim>\<open>ws.onmessage\<close> for a handler whose closure holds \<open>alerts_c\<close> for \<^verbatim>\<open>alerts\<close>.
\<close>

definition onmessage ::
  "AlertEvent list \<Rightarrow> int \<Rightarrow> string \<Rightarrow> message \<Rightarrow> AppState \<Rightarrow> AppState"
where
  "onmessage alerts_c now fresh_id msg st =
     (case msg of
        Other \<Rightarrow> st
      | Kline m \<Rightarrow>
          (case updater alerts_c now m (pairsData st) of
             (pd, calls) \<Rightarrow>
               \<lparr>pairsData = pd,
                alerts = foldl (\<lambda>log (symbol_v, price_v, type_v).
                                  triggerAlert fresh_id now symbol_v price_v type_v log)
                           (alerts st) calls\<rparr>))"

text \<open>
  The handler that is installed.  \<^verbatim>\<open>connectWebSocket\<close> is only ever called from the
  mount effect (\<^verbatim>\<open>useEffect(..., [])\<close>) and from its own \<^verbatim>\<open>onclose\<close> timer, so the
  handler's closure is the one of the first render, where \<^verbatim>\<open>alerts\<close> is the initial
  value \<^verbatim>\<open>[]\<close> of \<^verbatim>\<open>useState\<close>.  The log itself is read and written through the
  functional update inside \<^verbatim>\<open>triggerAlert\<close>.
\<close>

definition ws_onmessage :: "int \<Rightarrow> string \<Rightarrow> message \<Rightarrow> AppState \<Rightarrow> AppState" where
  "ws_onmessage now fresh_id msg st = onmessage [] now fresh_id msg st"

text \<open>The application state after \<^verbatim>\<open>initPairs\<close>: the seeded store and an empty log.\<close>

definition init_state :: "(string \<Rightarrow> response) \<Rightarrow> AppState" where
  "init_state fetch = \<lparr>pairsData = initPairs fetch, alerts = []\<rparr>"

text \<open>
  The feed delivers messages one at a time and each is handled to completion.  An
  event is a message with the clock reading and the identifier drawn while it is
  handled.
\<close>

fun run :: "(int \<times> string \<times> message) list \<Rightarrow> AppState \<Rightarrow> AppState" where
  "run [] st = st"
| "run ((now, fresh_id, msg) # events) st = run events (ws_onmessage now fresh_id msg st)"

section \<open>Concrete scenarios\<close>

text \<open>
  One seeded instrument, keyed by its ticker as \<^verbatim>\<open>initPairs\<close> does, with given
  EMAs; a store and an application state holding it; a tick for it with a given close;
  a seed row.  The theorems below are run on these.
\<close>

definition btc_pair :: "real \<Rightarrow> real \<Rightarrow> PairStatus" where
  "btc_pair e20 e100 =
     \<lparr>symbol = ''btcusdt.p'', price = Some (Num 100), ema20 = Some (Num e20),
      ema100 = Some (Num e100), lastTouch = None, isTouching = False, history = []\<rparr>"

definition btc_store :: "real \<Rightarrow> real \<Rightarrow> (string \<rightharpoonup> PairStatus)" where
  "btc_store e20 e100 = [''BTCUSDT'' \<mapsto> btc_pair e20 e100]"

definition btc_state :: "real \<Rightarrow> real \<Rightarrow> AppState" where
  "btc_state e20 e100 = \<lparr>pairsData = btc_store e20 e100, alerts = []\<rparr>"

definition btc_tick :: "real \<Rightarrow> bool \<Rightarrow> kline_msg" where
  "btc_tick c x =
     \<lparr>msg_s = ''BTCUSDT'', k_t = Num 0, k_o = Num c, k_h = Num c, k_l = Num c,
      k_c = Num c, k_x = x\<rparr>"

definition seed_row :: "real \<Rightarrow> KlineData" where
  "seed_row c = \<lparr>time = Num 0, open_p = Num c, high = Num c, low = Num c, close = Num c\<rparr>"

text \<open>
  A feed whose answer for BTCUSDT is an array of a single row, whose request for
  ETHUSDT fails, whose answer for ICPUSDT holds a \<^verbatim>\<open>null\<close> row, and whose other
  answers are not arrays.
\<close>

definition short_fetch :: "string \<Rightarrow> response" where
  "short_fetch ticker =
     (if ticker = ''BTCUSDT'' then Array [Row (seed_row 100)]
      else if ticker = ''ETHUSDT'' then Throws
      else if ticker = ''ICPUSDT'' then Array [Row (seed_row 100), NullRow]
      else NotArray)"

text \<open>Two ticks for BTCUSDT at the close 100, one minute apart.\<close>

definition two_ticks :: "(int \<times> string \<times> message) list" where
  "two_ticks =
     [(1000000, ''a'', Kline (btc_tick 100 False)),
      (1060000, ''b'', Kline (btc_tick 100 False))]"

text \<open>A feed that answers every request with 201 rows at the close 1.\<close>

definition wide_fetch :: "string \<Rightarrow> response" where
  "wide_fetch ticker = Array (replicate 201 (Row (seed_row 1)))"

text \<open>A state whose alert log is full.\<close>

definition logged_state :: AppState where
  "logged_state =
     \<lparr>pairsData = btc_store 100 100,
      alerts = replicate 50
        \<lparr>alert_id = ''z'', alert_symbol = ''ETHUSDT.P'', timestamp = 0,
         alert_price = Num 1, alert_type = touch\<rparr>\<rparr>"

text \<open>An instrument whose history is full, and a state holding it.\<close>

definition full_pair :: PairStatus where
  "full_pair = (btc_pair 100 100)\<lparr>history := replicate 200 (seed_row 1)\<rparr>"

definition full_state :: AppState where
  "full_state = \<lparr>pairsData = [''BTCUSDT'' \<mapsto> full_pair], alerts = []\<rparr>"

definition touch_alert :: "string \<Rightarrow> int \<Rightarrow> AlertEvent" where
  "touch_alert i t =
     \<lparr>alert_id = i, alert_symbol = ''BTCUSDT.P'', timestamp = t, alert_price = Num 100,
      alert_type = touch\<rparr>"

section \<open>Properties of the EMA calculator\<close>

subsection \<open>Array reads and the two loops\<close>

lemma js_add_NaN_right [simp]: "js_add x NaN = NaN"
  by (cases x) simp_all

lemma dense_at_in [simp]: "i < length xs \<Longrightarrow> dense_at xs (int i) = Some (xs ! i)"
  by (simp add: dense_at_def)

lemma dense_at_out [simp]: "length xs \<le> i \<Longrightarrow> dense_at xs (int i) = None"
  by (simp add: dense_at_def)

lemma sum_loop_NaN: "sum_loop data period i NaN = NaN"
proof (induction data period i "NaN" rule: sum_loop.induct)
  case (1 data period i)
  then show ?case
    by (subst sum_loop.simps) simp
qed

lemma sum_loop_take:
  "i \<le> period \<Longrightarrow> period \<le> length data \<Longrightarrow>
   sum_loop data period i s = foldl js_add s (drop i (take period data))"
proof (induction data period i s rule: sum_loop.induct)
  case (1 data period i s)
  show ?case
  proof (cases "i < period")
    case True
    with "1.prems" have il: "i < length (take period data)" by simp
    have "drop i (take period data) = take period data ! i # drop (Suc i) (take period data)"
      using il by (rule Cons_nth_drop_Suc [symmetric])
    moreover have "take period data ! i = data ! i" using True by simp
    moreover have "sum_loop data period (Suc i) (js_add s (data ! i)) =
        foldl js_add (js_add s (data ! i)) (drop (Suc i) (take period data))"
      using "1.IH" [OF True] True "1.prems" by simp
    ultimately show ?thesis
      using True "1.prems" by (subst sum_loop.simps) simp
  next
    case False
    with "1.prems" show ?thesis by (subst sum_loop.simps) simp
  qed
qed

lemma sum_loop_short:
  "i \<le> length data \<Longrightarrow> length data < period \<Longrightarrow> sum_loop data period i s = NaN"
proof (induction data period i s rule: sum_loop.induct)
  case (1 data period i s)
  show ?case
  proof (cases "i < length data")
    case True
    then show ?thesis
      using "1.IH" "1.prems" by (subst sum_loop.simps) simp
  next
    case False
    with "1.prems" have "i = length data" by simp
    then show ?thesis
      using "1.prems" by (subst sum_loop.simps) (simp add: sum_loop_NaN)
  qed
qed

lemma array_set_append [simp]: "length ema = i \<Longrightarrow> array_set ema i v = ema @ [Some v]"
  by (simp add: array_set_def)

lemma array_set_empty: "array_set [] n v = replicate n None @ [Some v]"
  by (simp add: array_set_def)

lemma ema_loop_done: "length data \<le> i \<Longrightarrow> ema_loop data k i p ema = ema"
  by (subst ema_loop.simps) simp

lemma ema_loop_length:
  "length ema = i \<Longrightarrow> i \<le> length data \<Longrightarrow> length (ema_loop data k i p ema) = length data"
proof (induction data k i p ema rule: ema_loop.induct)
  case (1 data k i p ema)
  show ?case
  proof (cases "i < length data")
    case True
    then show ?thesis
      using "1.IH" [OF True refl] "1.prems" by (subst ema_loop.simps) (simp add: Let_def)
  next
    case False
    with "1.prems" show ?thesis by (subst ema_loop.simps) simp
  qed
qed

lemma ema_loop_prefix:
  "length ema = i \<Longrightarrow> j < i \<Longrightarrow> ema_loop data k i p ema ! j = ema ! j"
proof (induction data k i p ema rule: ema_loop.induct)
  case (1 data k i p ema)
  show ?case
  proof (cases "i < length data")
    case True
    then show ?thesis
      using "1.IH" [OF True refl] "1.prems"
      by (subst ema_loop.simps) (simp add: Let_def nth_append)
  next
    case False
    then show ?thesis by (subst ema_loop.simps) simp
  qed
qed

lemma ema_loop_step:
  "length ema = i \<Longrightarrow> 0 < i \<Longrightarrow> ToNumber (ema ! (i - 1)) = p \<Longrightarrow> i \<le> j \<Longrightarrow> j < length data \<Longrightarrow>
   ema_loop data k i p ema ! j =
     Some (js_add (js_mul (js_sub (data ! j) (ToNumber (ema_loop data k i p ema ! (j - 1)))) k)
            (ToNumber (ema_loop data k i p ema ! (j - 1))))"
proof (induction data k i p ema rule: ema_loop.induct)
  case (1 data k i p ema)
  from "1.prems" have True: "i < length data" by simp
  define cur where "cur = js_add (js_mul (js_sub (data ! i) p) k) p"
  have unf: "ema_loop data k i p ema = ema_loop data k (Suc i) cur (ema @ [Some cur])"
    using True "1.prems"(1) by (subst ema_loop.simps) (simp add: Let_def cur_def)
  show ?case
  proof (cases "j = i")
    case jeq: True
    have "ema_loop data k (Suc i) cur (ema @ [Some cur]) ! i = Some cur"
      using "1.prems"(1) by (simp add: ema_loop_prefix nth_append)
    moreover have "ema_loop data k (Suc i) cur (ema @ [Some cur]) ! (i - 1) = ema ! (i - 1)"
      using "1.prems"(1,2) by (simp add: ema_loop_prefix nth_append)
    ultimately show ?thesis
      using "1.prems"(3) jeq unf by (simp add: cur_def)
  next
    case False
    with "1.prems" have "Suc i \<le> j" by simp
    moreover have "length (ema @ [Some cur]) = Suc i" using "1.prems"(1) by simp
    moreover have "ToNumber ((ema @ [Some cur]) ! (Suc i - 1)) = cur"
      using "1.prems"(1) by (simp add: nth_append)
    ultimately have "ema_loop data k (Suc i) cur (ema @ [Some cur]) ! j =
       Some (js_add (js_mul (js_sub (data ! j)
          (ToNumber (ema_loop data k (Suc i) cur (ema @ [Some cur]) ! (j - 1)))) k)
          (ToNumber (ema_loop data k (Suc i) cur (ema @ [Some cur]) ! (j - 1))))"
      using "1.IH" [OF True, of cur] "1.prems"(1,5) by (simp add: cur_def)
    then show ?thesis using unf by simp
  qed
qed


lemma foldl_js_add_Num: "foldl js_add (Num a) (map Num xs) = Num (a + sum_list xs)"
  by (induction xs arbitrary: a) (simp_all add: add.assoc)

lemma calculateEMA_unfold:
  "0 < period \<Longrightarrow>
   calculateEMA data period =
     ema_loop data (js_div (Num 2) (Num (real period + 1))) period
       (js_div (sum_loop data period 0 (Num 0)) (Num (real period)))
       (replicate (period - 1) None @
        [Some (js_div (sum_loop data period 0 (Num 0)) (Num (real period)))])"
  by (simp add: calculateEMA_def Let_def array_set_empty)

lemma k_value: "js_div (Num 2) (Num (real period + 1)) = Num (2 / (real period + 1))"
proof -
  have "real period + 1 \<noteq> 0" by (simp add: add_nonneg_eq_0_iff)
  then show ?thesis by simp
qed

lemma calculateEMA_length:
  "0 < period \<Longrightarrow> period \<le> length data \<Longrightarrow> length (calculateEMA data period) = length data"
  by (simp add: calculateEMA_unfold ema_loop_length)

lemma calculateEMA_holes:
  "0 < period \<Longrightarrow> i < period - 1 \<Longrightarrow> calculateEMA data period ! i = None"
  by (simp add: calculateEMA_unfold ema_loop_prefix nth_append)

lemma calculateEMA_seed:
  "0 < period \<Longrightarrow> period \<le> length data \<Longrightarrow>
   calculateEMA data period ! (period - 1) =
     Some (js_div (foldl js_add (Num 0) (take period data)) (Num (real period)))"
  by (simp add: calculateEMA_unfold ema_loop_prefix nth_append sum_loop_take)

lemma calculateEMA_seed_mean:
  "0 < period \<Longrightarrow> period \<le> length xs \<Longrightarrow>
   calculateEMA (map Num xs) period ! (period - 1) =
     Some (Num (sum_list (take period xs) / real period))"
  using calculateEMA_seed [of period "map Num xs"]
  by (simp add: take_map foldl_js_add_Num)

lemma calculateEMA_rec:
  assumes "0 < period" "period \<le> i" "i < length data"
  shows "calculateEMA data period ! i =
     Some (js_add (js_mul (js_sub (data ! i) (ToNumber (calculateEMA data period ! (i - 1))))
                     (Num (2 / (real period + 1))))
            (ToNumber (calculateEMA data period ! (i - 1))))"
proof -
  let ?p = "js_div (sum_loop data period 0 (Num 0)) (Num (real period))"
  let ?ema = "replicate (period - 1) None @ [Some ?p]"
  have len: "length ?ema = period" using assms(1) by simp
  have lst: "ToNumber (?ema ! (period - 1)) = ?p" by (simp add: nth_append)
  show ?thesis
    using ema_loop_step [OF len assms(1) lst assms(2,3), of "js_div (Num 2) (Num (real period + 1))"]
      assms(1)
    by (simp only: calculateEMA_unfold k_value)
qed

lemma calculateEMA_defined:
  assumes "0 < period" "period \<le> length data" "period - 1 \<le> i" "i < length data"
  shows "\<exists>e. calculateEMA data period ! i = Some e"
proof (cases "i = period - 1")
  case True
  then show ?thesis using calculateEMA_seed [OF assms(1,2)] by simp
next
  case False
  with assms have "period \<le> i" by simp
  then show ?thesis using calculateEMA_rec [OF assms(1) _ assms(4)] by simp
qed

lemma calculateEMA_short:
  assumes "length data < period"
  shows "calculateEMA data period = replicate (period - 1) None @ [Some NaN]"
proof -
  from assms have pos: "0 < period" by simp
  have "sum_loop data period 0 (Num 0) = NaN"
    using assms by (simp add: sum_loop_short)
  then show ?thesis
    using assms pos by (simp add: calculateEMA_unfold ema_loop_done)
qed

subsection \<open>The batch EMA on a series of at least \<open>period\<close> closes\<close>

text \<open>
  Claim C4.  For a period \<open>> 0\<close> and a series of at least \<open>period\<close> closes,
  \<^verbatim>\<open>calculateEMA\<close> returns an array of the length of the input; its first
  \<open>period - 1\<close> entries are undefined (holes); the entry at index \<open>period - 1\<close> is the
  sum of the first \<open>period\<close> closes, added from left to right, divided by \<open>period\<close>,
  which for finite closes is their arithmetic mean; and every later entry \<open>i\<close> is
  \<open>(close[i] - ema[i-1]) * k + ema[i-1]\<close> with \<open>k = 2 / (period + 1)\<close>, the entry
  \<open>i - 1\<close> being defined.  For the closes 1, 2, ..., 20 and period 20 the seed value
  is 10.5.
\<close>

theorem calculateEMA_spec:
  assumes "0 < period" and "period \<le> length data"
  shows "length (calculateEMA data period) = length data \<and>
    (\<forall>i < period - 1. calculateEMA data period ! i = None) \<and>
    calculateEMA data period ! (period - 1) =
      Some (js_div (foldl js_add (Num 0) (take period data)) (Num (real period))) \<and>
    (\<forall>xs. data = map Num xs \<longrightarrow>
       calculateEMA data period ! (period - 1) =
         Some (Num (sum_list (take period xs) / real period))) \<and>
    (\<forall>i. period \<le> i \<and> i < length data \<longrightarrow>
       (\<exists>prev. calculateEMA data period ! (i - 1) = Some prev \<and>
          calculateEMA data period ! i =
            Some (js_add (js_mul (js_sub (data ! i) prev) (Num (2 / (real period + 1)))) prev))) \<and>
    calculateEMA (map Num [1, 2, 3, 4, 5, 6, 7, 8, 9, 10, 11, 12, 13, 14, 15, 16, 17, 18, 19, 20])
      20 ! 19 = Some (Num (21 / 2))"
proof (intro conjI allI impI)
  show "length (calculateEMA data period) = length data"
    using assms by (rule calculateEMA_length)
next
  fix i assume "i < period - 1"
  then show "calculateEMA data period ! i = None"
    using assms(1) by (simp add: calculateEMA_holes)
next
  show "calculateEMA data period ! (period - 1) =
      Some (js_div (foldl js_add (Num 0) (take period data)) (Num (real period)))"
    using assms by (rule calculateEMA_seed)
next
  fix xs assume "data = map Num xs"
  then show "calculateEMA data period ! (period - 1) =
         Some (Num (sum_list (take period xs) / real period))"
    using assms calculateEMA_seed_mean [of period xs] by simp
next
  fix i assume i: "period \<le> i \<and> i < length data"
  then have "period - 1 \<le> i - 1" "i - 1 < length data" by arith+
  then obtain e where e: "calculateEMA data period ! (i - 1) = Some e"
    using calculateEMA_defined [OF assms] by blast
  have "calculateEMA data period ! i =
     Some (js_add (js_mul (js_sub (data ! i) e) (Num (2 / (real period + 1)))) e)"
    using calculateEMA_rec [of period i data] assms(1) i e by simp
  with e show "\<exists>prev. calculateEMA data period ! (i - 1) = Some prev \<and>
          calculateEMA data period ! i =
            Some (js_add (js_mul (js_sub (data ! i) prev) (Num (2 / (real period + 1)))) prev)"
    by blast
next
  show "calculateEMA (map Num [1, 2, 3, 4, 5, 6, 7, 8, 9, 10, 11, 12, 13, 14, 15, 16, 17, 18, 19, 20])
      20 ! 19 = Some (Num (21 / 2))"
    using calculateEMA_seed_mean
      [of 20 "[1, 2, 3, 4, 5, 6, 7, 8, 9, 10, 11, 12, 13, 14, 15, 16, 17, 18, 19, 20]"]
    by simp
qed

theorem calculateEMA_spec_witness:
  "0 < (2::nat) \<and> 2 \<le> length [Num 1, Num 2, Num 4, Num 8] \<and>
   length (calculateEMA [Num 1, Num 2, Num 4, Num 8] 2) = 4 \<and>
   calculateEMA [Num 1, Num 2, Num 4, Num 8] 2 ! 0 = None \<and>
   calculateEMA [Num 1, Num 2, Num 4, Num 8] 2 ! 1 = Some (Num (3 / 2)) \<and>
   calculateEMA [Num 1, Num 2, Num 4, Num 8] 2 ! 2 = Some (Num (19 / 6))"
proof -
  have h1: "0 < (2::nat)" by simp
  have h2: "2 \<le> length [Num 1, Num 2, Num 4, Num 8]" by simp
  note t = calculateEMA_spec [OF h1 h2]
  from t have a: "length (calculateEMA [Num 1, Num 2, Num 4, Num 8] 2) = 4" by simp
  from t have b: "calculateEMA [Num 1, Num 2, Num 4, Num 8] 2 ! 0 = None" by simp
  from t have c: "calculateEMA [Num 1, Num 2, Num 4, Num 8] 2 ! 1 = Some (Num (3 / 2))" by simp
  from t have r: "\<forall>i. 2 \<le> i \<and> i < length [Num 1, Num 2, Num 4, Num 8] \<longrightarrow>
       (\<exists>prev. calculateEMA [Num 1, Num 2, Num 4, Num 8] 2 ! (i - 1) = Some prev \<and>
          calculateEMA [Num 1, Num 2, Num 4, Num 8] 2 ! i =
            Some (js_add (js_mul (js_sub ([Num 1, Num 2, Num 4, Num 8] ! i) prev)
              (Num (2 / (real 2 + 1)))) prev))"
    by blast
  have "\<exists>prev. calculateEMA [Num 1, Num 2, Num 4, Num 8] 2 ! (2 - 1) = Some prev \<and>
          calculateEMA [Num 1, Num 2, Num 4, Num 8] 2 ! 2 =
            Some (js_add (js_mul (js_sub ([Num 1, Num 2, Num 4, Num 8] ! 2) prev)
              (Num (2 / (real 2 + 1)))) prev)"
    using r [rule_format, of 2] by simp
  with c have d: "calculateEMA [Num 1, Num 2, Num 4, Num 8] 2 ! 2 = Some (Num (19 / 6))"
    by auto
  from h1 h2 a b c d show ?thesis by blast
qed

subsection \<open>The batch EMA on a series shorter than \<open>period\<close>\<close>

text \<open>
  The claim that the result then has no defined entry at any index fails: for the
  single close 1 and period 2 the entry at index 1 is the number \<^verbatim>\<open>NaN\<close>, not
  \<^verbatim>\<open>undefined\<close>.
\<close>

theorem calculateEMA_short_not_undefined:
  "length [Num 1] < (2::nat) \<and> sparse_at (calculateEMA [Num 1] 2) 1 = Some NaN \<and>
   sparse_at (calculateEMA [Num 1] 2) 1 \<noteq> None"
  using calculateEMA_short [of "[Num 1]" 2] by (simp add: sparse_at_def numeral_2_eq_2)

text \<open>
  Claim C9, as amended.  For a series strictly shorter than \<open>period\<close>, the result
  holds no finite number: it has length \<open>period\<close> (not the length of the input), the
  entries at the indices below \<open>period - 1\<close> are undefined (holes), and the entry at
  index \<open>period - 1\<close>, where the seed value would stand, is \<^verbatim>\<open>NaN\<close>.
\<close>

theorem calculateEMA_too_short:
  "length data < period \<Longrightarrow>
   calculateEMA data period = replicate (period - 1) None @ [Some NaN]"
  by (rule calculateEMA_short)

theorem calculateEMA_too_short_witness:
  "length [Num 1] < (2::nat) \<and> calculateEMA [Num 1] 2 = [None, Some NaN]"
  using calculateEMA_too_short [of "[Num 1]" 2] by (simp add: numeral_2_eq_2)

subsection \<open>The incremental EMA\<close>

text \<open>
  Claim C5.  For every new close, previous EMA and period, \<^verbatim>\<open>calculateSingleEMA\<close>
  returns \<open>(newClose - prevEma) * (2 / (period + 1)) + prevEma\<close>; it is a function of
  its three arguments alone, reading and writing no state.  In particular, for the
  close 21, the previous EMA 10.5 and the period 20 it returns
  \<open>(21 - 10.5) * (2 / 21) + 10.5\<close>, which is 11.5.
\<close>

theorem calculateSingleEMA_formula:
  "calculateSingleEMA (Num newClose) (Num prevEma) period =
     Num ((newClose - prevEma) * (2 / (real period + 1)) + prevEma) \<and>
   calculateSingleEMA (Num 21) (Num (21 / 2)) 20 = Num (23 / 2)"
  by (simp add: calculateSingleEMA_def k_value)

section \<open>Properties of the tick handler\<close>

lemma updater_unknown: "prev (msg_s m) = None \<Longrightarrow> updater alerts_c now m prev = (prev, [])"
  by (simp add: updater_def)

lemma updater_store:
  "prev (msg_s m) = Some current \<Longrightarrow>
   fst (updater alerts_c now m prev) =
     prev(msg_s m \<mapsto>
       current\<lparr>price := Some (k_c m),
         ema20 := Some (calculateSingleEMA (k_c m) (ToNumber (ema20 current)) 20),
         ema100 := Some (calculateSingleEMA (k_c m) (ToNumber (ema100 current)) 100),
         isTouching :=
           js_le (js_abs (js_sub (calculateSingleEMA (k_c m) (ToNumber (ema20 current)) 20)
                    (calculateSingleEMA (k_c m) (ToNumber (ema100 current)) 100)))
             (js_mul_double (calculateSingleEMA (k_c m) (ToNumber (ema100 current)) 100)
                (Num double_0_00015)),
         history :=
           (if k_x m then
              (if length (history current) + 1 > 200
               then tl (history current @
                      [\<lparr>time = k_t m, open_p = k_o m, high = k_h m, low = k_l m,
                        close = k_c m\<rparr>])
               else history current @
                      [\<lparr>time = k_t m, open_p = k_o m, high = k_h m, low = k_l m,
                        close = k_c m\<rparr>])
            else history current)\<rparr>)"
  by (simp add: updater_def Let_def)

lemma updater_calls:
  "prev (msg_s m) = Some current \<Longrightarrow>
   snd (updater alerts_c now m prev) =
     alert_block alerts_c now (symbol current) (k_c m)
       (js_gt (ToNumber (ema20 current)) (ToNumber (ema100 current)) \<noteq>
        js_gt (calculateSingleEMA (k_c m) (ToNumber (ema20 current)) 20)
              (calculateSingleEMA (k_c m) (ToNumber (ema100 current)) 100))
       (js_gt (calculateSingleEMA (k_c m) (ToNumber (ema20 current)) 20)
              (calculateSingleEMA (k_c m) (ToNumber (ema100 current)) 100))
       (js_le (js_abs (js_sub (calculateSingleEMA (k_c m) (ToNumber (ema20 current)) 20)
                    (calculateSingleEMA (k_c m) (ToNumber (ema100 current)) 100)))
             (js_mul_double (calculateSingleEMA (k_c m) (ToNumber (ema100 current)) 100)
                (Num double_0_00015)))"
  by (simp add: updater_def Let_def)

lemma alert_block_fresh:
  "alert_block [] now s c crossed isAbove touching =
     (if crossed then [(s, c, if isAbove then bullish_cross else bearish_cross)]
      else if touching then [(s, c, touch)] else [])"
  by (simp add: alert_block_def)

lemma alert_block_cases:
  "alert_block alerts_c now s c crossed isAbove touching =
     (if (case alerts_c of [] \<Rightarrow> False
          | lastAlert # _ \<Rightarrow> alert_symbol lastAlert = s \<and> now - timestamp lastAlert < 300000)
      then []
      else if crossed then [(s, c, if isAbove then bullish_cross else bearish_cross)]
      else if touching then [(s, c, touch)] else [])"
  by (simp add: alert_block_def Let_def)

lemma alert_block_length: "length (alert_block alerts_c now s c crossed isAbove touching) \<le> 1"
  by (simp add: alert_block_cases)

lemma onmessage_Kline:
  "onmessage alerts_c now fresh_id (Kline m) st =
     \<lparr>pairsData = fst (updater alerts_c now m (pairsData st)),
      alerts = foldl (\<lambda>log (symbol_v, price_v, type_v).
                        triggerAlert fresh_id now symbol_v price_v type_v log)
                 (alerts st) (snd (updater alerts_c now m (pairsData st)))\<rparr>"
  by (simp add: onmessage_def split: prod.split)

lemma onmessage_Other: "onmessage alerts_c now fresh_id Other st = st"
  by (simp add: onmessage_def)

subsection \<open>The scenario of a touch at the close 100\<close>

lemma upper_btc: "toUpperCase ''btcusdt.p'' = ''BTCUSDT.P''"
  by code_simp

lemma band_of_100:
  "double_round (100 * double_0_00015) = 1080863910568919 / 72057594037927936"
  by code_simp

lemma btc_touch_calls:
  "updater alerts_c now (btc_tick 100 False)
     [''BTCUSDT'' \<mapsto> btc_pair 100 100\<lparr>isTouching := b\<rparr>] =
     ([''BTCUSDT'' \<mapsto> btc_pair 100 100\<lparr>isTouching := True\<rparr>],
      alert_block alerts_c now ''btcusdt.p'' (Num 100) False False True)"
  by (simp add: updater_def Let_def btc_tick_def btc_pair_def calculateSingleEMA_def
      band_of_100)

lemma btc_store_flag:
  "btc_store 100 100 = [''BTCUSDT'' \<mapsto> btc_pair 100 100\<lparr>isTouching := False\<rparr>]"
  by (simp add: btc_store_def btc_pair_def)

subsection \<open>Signal selection\<close>

text \<open>
  Claim C3.  A tick on a known symbol makes at most one call of \<^verbatim>\<open>triggerAlert\<close>.
  When the cross condition holds, the only call possible is the cross, of kind
  \<^verbatim>\<open>bullish_cross\<close> when \<open>newEma20 > newEma100\<close> and \<^verbatim>\<open>bearish_cross\<close> otherwise,
  also when the tick is within the touch band; a touch is called only when no cross
  occurred and the touch condition holds; with neither, nothing is called.  For the
  installed handler the call is made, and the log grows by exactly that alert.
\<close>

theorem one_signal_per_tick:
  assumes "pairsData st (msg_s m) = Some current"
  shows
    "let newEma20 = calculateSingleEMA (k_c m) (ToNumber (ema20 current)) 20;
         newEma100 = calculateSingleEMA (k_c m) (ToNumber (ema100 current)) 100;
         crossed = (js_gt (ToNumber (ema20 current)) (ToNumber (ema100 current)) \<noteq>
                    js_gt newEma20 newEma100);
         touching = js_le (js_abs (js_sub newEma20 newEma100))
                      (js_mul_double newEma100 (Num double_0_00015));
         cross_call = (symbol current, k_c m,
                       if js_gt newEma20 newEma100 then bullish_cross else bearish_cross);
         touch_call = (symbol current, k_c m, touch);
         calls = snd (updater alerts_c now m (pairsData st))
     in length calls \<le> 1 \<and>
        (crossed \<longrightarrow> calls = [] \<or> calls = [cross_call]) \<and>
        (\<not> crossed \<and> touching \<longrightarrow> calls = [] \<or> calls = [touch_call]) \<and>
        (\<not> crossed \<and> \<not> touching \<longrightarrow> calls = []) \<and>
        snd (updater [] now m (pairsData st)) =
          (if crossed then [cross_call] else if touching then [touch_call] else []) \<and>
        alerts (ws_onmessage now fresh_id (Kline m) st) =
          (if crossed then triggerAlert fresh_id now (symbol current) (k_c m)
                             (if js_gt newEma20 newEma100 then bullish_cross else bearish_cross)
                             (alerts st)
           else if touching then triggerAlert fresh_id now (symbol current) (k_c m) touch (alerts st)
           else alerts st)"
  unfolding Let_def
proof (intro conjI)
  note uc = updater_calls [of "pairsData st" m current, OF assms]
  show "length (snd (updater alerts_c now m (pairsData st))) \<le> 1"
    unfolding uc by (rule alert_block_length)
qed (simp_all add: updater_calls [of "pairsData st" m current, OF assms]
       alert_block_cases ws_onmessage_def onmessage_Kline)


theorem one_signal_per_tick_witness:
  "pairsData (btc_state 100 (100001 / 1000)) (msg_s (btc_tick (1001 / 10) False)) =
     Some (btc_pair 100 (100001 / 1000)) \<and>
   snd (updater [] 0 (btc_tick (1001 / 10) False) (pairsData (btc_state 100 (100001 / 1000)))) =
     [(''btcusdt.p'', Num (1001 / 10), bullish_cross)] \<and>
   js_le (js_abs (js_sub (calculateSingleEMA (Num (1001 / 10)) (Num 100) 20)
            (calculateSingleEMA (Num (1001 / 10)) (Num (100001 / 1000)) 100)))
     (js_mul_double (calculateSingleEMA (Num (1001 / 10)) (Num (100001 / 1000)) 100)
        (Num double_0_00015)) \<and>
   pairsData (btc_state (190021 / 1900) 100) (msg_s (btc_tick 100 False)) =
     Some (btc_pair (190021 / 1900) 100) \<and>
   snd (updater [] 0 (btc_tick 100 False) (pairsData (btc_state (190021 / 1900) 100))) =
     [(''btcusdt.p'', Num 100, touch)] \<and>
   pairsData (btc_state 100 200) (msg_s (btc_tick 100 False)) = Some (btc_pair 100 200) \<and>
   snd (updater [] 0 (btc_tick 100 False) (pairsData (btc_state 100 200))) = []"
proof -
  have h: "pairsData (btc_state 100 (100001 / 1000)) (msg_s (btc_tick (1001 / 10) False)) =
     Some (btc_pair 100 (100001 / 1000))"
    by (simp add: btc_state_def btc_store_def btc_tick_def)
  have a1: "js_gt (calculateSingleEMA (Num (1001 / 10)) (Num 100) 20)
              (calculateSingleEMA (Num (1001 / 10)) (Num (100001 / 1000)) 100)"
    by code_simp
  have a2: "js_le (js_abs (js_sub (calculateSingleEMA (Num (1001 / 10)) (Num 100) 20)
            (calculateSingleEMA (Num (1001 / 10)) (Num (100001 / 1000)) 100)))
     (js_mul_double (calculateSingleEMA (Num (1001 / 10)) (Num (100001 / 1000)) 100)
        (Num double_0_00015))"
    by code_simp
  have a: "snd (updater [] 0 (btc_tick (1001 / 10) False)
               (pairsData (btc_state 100 (100001 / 1000)))) =
     [(''btcusdt.p'', Num (1001 / 10), bullish_cross)]"
    using one_signal_per_tick [OF h, of "[]" 0 "''x''"] a1 a2
    by (simp add: Let_def btc_pair_def btc_tick_def)
  have h2: "pairsData (btc_state (190021 / 1900) 100) (msg_s (btc_tick 100 False)) =
     Some (btc_pair (190021 / 1900) 100)"
    by (simp add: btc_state_def btc_store_def btc_tick_def)
  have b1: "js_gt (calculateSingleEMA (Num 100) (Num (190021 / 1900)) 20)
              (calculateSingleEMA (Num 100) (Num 100) 100)"
    by code_simp
  have b2: "js_le (js_abs (js_sub (calculateSingleEMA (Num 100) (Num (190021 / 1900)) 20)
            (calculateSingleEMA (Num 100) (Num 100) 100)))
     (js_mul_double (calculateSingleEMA (Num 100) (Num 100) 100) (Num double_0_00015))"
    by code_simp
  have b: "snd (updater [] 0 (btc_tick 100 False) (pairsData (btc_state (190021 / 1900) 100))) =
     [(''btcusdt.p'', Num 100, touch)]"
    using one_signal_per_tick [OF h2, of "[]" 0 "''x''"] b1 b2
    by (simp add: Let_def btc_pair_def btc_tick_def)
  have h3: "pairsData (btc_state 100 200) (msg_s (btc_tick 100 False)) = Some (btc_pair 100 200)"
    by (simp add: btc_state_def btc_store_def btc_tick_def)
  have c1: "\<not> js_gt (calculateSingleEMA (Num 100) (Num 100) 20)
              (calculateSingleEMA (Num 100) (Num 200) 100)"
    by code_simp
  have c2: "\<not> js_le (js_abs (js_sub (calculateSingleEMA (Num 100) (Num 100) 20)
            (calculateSingleEMA (Num 100) (Num 200) 100)))
     (js_mul_double (calculateSingleEMA (Num 100) (Num 200) 100) (Num double_0_00015))"
    by code_simp
  have c: "snd (updater [] 0 (btc_tick 100 False) (pairsData (btc_state 100 200))) = []"
    using one_signal_per_tick [OF h3, of "[]" 0 "''x''"] c1 c2
    by (simp add: Let_def btc_pair_def btc_tick_def)
  from h a a2 h2 b h3 c show ?thesis by blast
qed

lemma onmessage_store:
  "pairsData (onmessage alerts_c now fresh_id (Kline m) st) =
     fst (updater alerts_c now m (pairsData st))"
  by (simp add: onmessage_Kline)

lemma js_le_finite:
  "js_le (js_abs (js_sub (Num a) (Num b))) (js_mul_double (Num b) (Num c)) =
     (\<bar>a - b\<bar> \<le> double_round (b * c))"
  by simp

lemma js_le_NaN:
  "x = NaN \<or> y = NaN \<Longrightarrow> \<not> js_le (js_abs (js_sub x y)) (js_mul_double y c)"
  by (cases x; cases y; cases c) auto

text \<open>
  Claim C6.  On every tick on a known symbol the stored \<^verbatim>\<open>isTouching\<close> is recomputed
  from the new EMAs alone (the previous flag is not read): it is the result of
  \<^verbatim>\<open>Math.abs(newEma20 - newEma100) <= newEma100 * 0.00015\<close>.  For finite EMAs it is
  true if and only if \<open>|newEma20 - newEma100|\<close> is at most the product of
  \<open>newEma100\<close> and the double \<^verbatim>\<open>0.00015\<close>, rounded to a double; when an EMA is \<^verbatim>\<open>NaN\<close>
  it is false.  With \<open>newEma20 = 100.01\<close> and \<open>newEma100 = 100\<close> it is true.
\<close>

theorem touch_state_per_tick:
  assumes "pairsData st (msg_s m) = Some current"
  shows
    "let newEma20 = calculateSingleEMA (k_c m) (ToNumber (ema20 current)) 20;
         newEma100 = calculateSingleEMA (k_c m) (ToNumber (ema100 current)) 100
     in \<exists>p. pairsData (onmessage alerts_c now fresh_id (Kline m) st) (msg_s m) = Some p \<and>
          ema20 p = Some newEma20 \<and> ema100 p = Some newEma100 \<and>
          isTouching p =
            js_le (js_abs (js_sub newEma20 newEma100))
              (js_mul_double newEma100 (Num double_0_00015)) \<and>
          (\<forall>a b. newEma20 = Num a \<and> newEma100 = Num b \<longrightarrow>
             isTouching p = (\<bar>a - b\<bar> \<le> double_round (b * double_0_00015))) \<and>
          (newEma20 = NaN \<or> newEma100 = NaN \<longrightarrow> \<not> isTouching p) \<and>
          (newEma20 = Num (10001 / 100) \<and> newEma100 = Num 100 \<longrightarrow> isTouching p)"
proof -
  let ?n20 = "calculateSingleEMA (k_c m) (ToNumber (ema20 current)) 20"
  let ?n100 = "calculateSingleEMA (k_c m) (ToNumber (ema100 current)) 100"
  let ?t = "js_le (js_abs (js_sub ?n20 ?n100)) (js_mul_double ?n100 (Num double_0_00015))"
  obtain p where p: "pairsData (onmessage alerts_c now fresh_id (Kline m) st) (msg_s m) = Some p"
    "ema20 p = Some ?n20" "ema100 p = Some ?n100" "isTouching p = ?t"
    unfolding onmessage_store updater_store [of "pairsData st" m current, OF assms]
    by simp
  have 1: "\<forall>a b. ?n20 = Num a \<and> ?n100 = Num b \<longrightarrow>
      isTouching p = (\<bar>a - b\<bar> \<le> double_round (b * double_0_00015))"
    using p(4) by (auto simp add: js_le_finite)
  have 2: "?n20 = NaN \<or> ?n100 = NaN \<longrightarrow> \<not> isTouching p"
    using p(4) js_le_NaN [of ?n20 ?n100 "Num double_0_00015"] by blast
  have 3: "?n20 = Num (10001 / 100) \<and> ?n100 = Num 100 \<longrightarrow> isTouching p"
    using p(4) by (auto simp add: band_of_100)
  from p 1 2 3 show ?thesis unfolding Let_def by blast
qed

theorem touch_state_per_tick_witness:
  "pairsData (btc_state (190021 / 1900) 100) (msg_s (btc_tick 100 False)) =
     Some (btc_pair (190021 / 1900) 100) \<and>
   (\<exists>p. pairsData (onmessage [] 0 ''x'' (Kline (btc_tick 100 False))
                    (btc_state (190021 / 1900) 100)) ''BTCUSDT'' = Some p \<and>
        ema20 p = Some (Num (10001 / 100)) \<and> ema100 p = Some (Num 100) \<and> isTouching p) \<and>
   pairsData (btc_state 380063 380000) (msg_s (btc_tick 380000 False)) =
     Some (btc_pair 380063 380000) \<and>
   (\<exists>p. pairsData (onmessage [] 0 ''x'' (Kline (btc_tick 380000 False))
                    (btc_state 380063 380000)) ''BTCUSDT'' = Some p \<and>
        ema20 p = Some (Num 380057) \<and> ema100 p = Some (Num 380000) \<and> \<not> isTouching p) \<and>
   pairsData (btc_state 3420567 3420000) (msg_s (btc_tick 3420000 False)) =
     Some (btc_pair 3420567 3420000) \<and>
   (\<exists>p. pairsData (onmessage [] 0 ''x'' (Kline (btc_tick 3420000 False))
                    (btc_state 3420567 3420000)) ''BTCUSDT'' = Some p \<and>
        ema20 p = Some (Num 3420513) \<and> ema100 p = Some (Num 3420000) \<and> isTouching p)"
proof -
  have h1: "pairsData (btc_state (190021 / 1900) 100) (msg_s (btc_tick 100 False)) =
     Some (btc_pair (190021 / 1900) 100)"
    by (simp add: btc_state_def btc_store_def btc_tick_def)
  have r1: "\<exists>p. pairsData (onmessage [] 0 ''x'' (Kline (btc_tick 100 False))
                    (btc_state (190021 / 1900) 100)) ''BTCUSDT'' = Some p \<and>
        ema20 p = Some (Num (10001 / 100)) \<and> ema100 p = Some (Num 100) \<and> isTouching p"
    using touch_state_per_tick [OF h1, of "[]" 0 "''x''"]
    by (auto simp add: Let_def btc_pair_def btc_tick_def calculateSingleEMA_def band_of_100)
  have h2: "pairsData (btc_state 380063 380000) (msg_s (btc_tick 380000 False)) =
     Some (btc_pair 380063 380000)"
    by (simp add: btc_state_def btc_store_def btc_tick_def)
  have d2: "double_round (380000 * double_0_00015) = 8022036836253695 / 140737488355328"
    by code_simp
  have r2: "\<exists>p. pairsData (onmessage [] 0 ''x'' (Kline (btc_tick 380000 False))
                    (btc_state 380063 380000)) ''BTCUSDT'' = Some p \<and>
        ema20 p = Some (Num 380057) \<and> ema100 p = Some (Num 380000) \<and> \<not> isTouching p"
    using touch_state_per_tick [OF h2, of "[]" 0 "''x''"]
    by (auto simp add: Let_def btc_pair_def btc_tick_def calculateSingleEMA_def d2)
  have h3: "pairsData (btc_state 3420567 3420000) (msg_s (btc_tick 3420000 False)) =
     Some (btc_pair 3420567 3420000)"
    by (simp add: btc_state_def btc_store_def btc_tick_def)
  have d3: "double_round (3420000 * double_0_00015) = 513"
    by code_simp
  have r3: "\<exists>p. pairsData (onmessage [] 0 ''x'' (Kline (btc_tick 3420000 False))
                    (btc_state 3420567 3420000)) ''BTCUSDT'' = Some p \<and>
        ema20 p = Some (Num 3420513) \<and> ema100 p = Some (Num 3420000) \<and> isTouching p"
    using touch_state_per_tick [OF h3, of "[]" 0 "''x''"]
    by (auto simp add: Let_def btc_pair_def btc_tick_def calculateSingleEMA_def d3)
  from h1 r1 h2 r2 h3 r3 show ?thesis by blast
qed

text \<open>
  Claim C10.  The store written by a tick does not depend on the alerts the handler
  sees, on the clock, on the identifier drawn or on the alert log, hence not on whether
  the signal was recorded or suppressed; for a known symbol the entry written is
  determined by the previous entry and the tick, and the other entries are kept.
  \<^verbatim>\<open>triggerAlert\<close> maps an alert log to an alert log, and \<^verbatim>\<open>onmessage\<close> applies it
  to the log only.
\<close>

theorem store_independent_of_alerts:
  "pairsData (onmessage alerts_c now fresh_id msg st) =
     pairsData (onmessage alerts_c' now' fresh_id' msg (st\<lparr>alerts := log'\<rparr>)) \<and>
   pairsData (onmessage alerts_c now fresh_id (Kline m) st) =
     fst (updater alerts_c' now' m (pairsData st)) \<and>
   fst (updater alerts_c now m prev) = fst (updater alerts_c' now' m prev) \<and>
   (case prev (msg_s m) of
      None \<Rightarrow> fst (updater alerts_c now m prev) = prev
    | Some current \<Rightarrow>
        fst (updater alerts_c now m prev) =
          prev(msg_s m \<mapsto> the (fst (updater [] 0 m [msg_s m \<mapsto> current]) (msg_s m))))"
proof (intro conjI)
  show "fst (updater alerts_c now m prev) = fst (updater alerts_c' now' m prev)"
    by (cases "prev (msg_s m)") (simp_all add: updater_unknown updater_store)
  show "pairsData (onmessage alerts_c now fresh_id (Kline m) st) =
     fst (updater alerts_c' now' m (pairsData st))"
    by (cases "pairsData st (msg_s m)")
      (simp_all add: onmessage_store updater_unknown updater_store)
  show "pairsData (onmessage alerts_c now fresh_id msg st) =
     pairsData (onmessage alerts_c' now' fresh_id' msg (st\<lparr>alerts := log'\<rparr>))"
  proof (cases msg)
    case (Kline k)
    have "fst (updater alerts_c now k (pairsData st)) = fst (updater alerts_c' now' k (pairsData st))"
      by (cases "pairsData st (msg_s k)") (simp_all add: updater_unknown updater_store)
    then show ?thesis using Kline by (simp add: onmessage_store)
  next
    case Other
    then show ?thesis by (simp add: onmessage_Other)
  qed
  show "case prev (msg_s m) of
      None \<Rightarrow> fst (updater alerts_c now m prev) = prev
    | Some current \<Rightarrow>
        fst (updater alerts_c now m prev) =
          prev(msg_s m \<mapsto> the (fst (updater [] 0 m [msg_s m \<mapsto> current]) (msg_s m)))"
    by (cases "prev (msg_s m)") (simp_all add: updater_unknown updater_store)
qed


theorem store_independent_of_alerts_witness:
  "snd (updater [(touch_alert ''a'' 0)\<lparr>alert_symbol := ''btcusdt.p''\<rparr>] 5
          (btc_tick 100 False) (btc_store 100 100)) = [] \<and>
   snd (updater [] 5 (btc_tick 100 False) (btc_store 100 100)) =
     [(''btcusdt.p'', Num 100, touch)] \<and>
   fst (updater [(touch_alert ''a'' 0)\<lparr>alert_symbol := ''btcusdt.p''\<rparr>] 5
          (btc_tick 100 False) (btc_store 100 100)) =
   fst (updater [] 5 (btc_tick 100 False) (btc_store 100 100))"
  using store_independent_of_alerts
    [where m = "btc_tick 100 False" and prev = "btc_store 100 100" and
       alerts_c = "[(touch_alert ''a'' 0)\<lparr>alert_symbol := ''btcusdt.p''\<rparr>]" and
       now = 5 and alerts_c' = "[]" and now' = 5,
     THEN conjunct2, THEN conjunct2, THEN conjunct1]
  by (simp add: btc_store_flag btc_touch_calls alert_block_def touch_alert_def)

lemma js_gt_asym: "js_gt x y \<Longrightarrow> \<not> js_gt y x"
  by (cases x; cases y) simp_all

lemma js_gt_irrefl [simp]: "\<not> js_gt x x"
  by (cases x) simp_all

lemma cross_call_iff:
  "(\<exists>c \<in> set (alert_block [] now s cl crossed isAbove t). snd (snd c) \<noteq> touch) = crossed"
  by (simp add: alert_block_fresh)

lemma swap_flips:
  assumes "js_gt p20 p100 \<or> js_gt p100 p20" and "js_gt n20 n100 \<or> js_gt n100 n20"
  shows "(map (snd \<circ> snd)
            (alert_block [] now s cl (js_gt p20 p100 \<noteq> js_gt n20 n100) (js_gt n20 n100) t) =
          [bullish_cross]) =
         (map (snd \<circ> snd)
            (alert_block [] now s cl (js_gt p100 p20 \<noteq> js_gt n100 n20) (js_gt n100 n20) t') =
          [bearish_cross])"
  using assms js_gt_asym [of p20 p100] js_gt_asym [of p100 p20]
    js_gt_asym [of n20 n100] js_gt_asym [of n100 n20]
  by (auto simp add: alert_block_fresh)

text \<open>
  Claim C7.  The calls made on a tick are those of the alert block run with
  \<open>crossed = ((prevEma20 > prevEma100) \<noteq> (newEma20 > newEma100))\<close>, both comparisons
  strict; the installed handler calls a cross exactly when \<open>crossed\<close> holds.  When
  \<open>newEma20 = newEma100\<close> the new relation is not-above and no bullish cross is
  called.  The next tick on the symbol compares against the EMAs this tick stored, so
  it calls a cross exactly when the relation flips again.  Where in both the previous
  and the new pair one EMA is strictly above the other, exchanging the two EMAs turns
  a bullish cross into a bearish cross and conversely.
\<close>

theorem cross_predicate:
  assumes "prev (msg_s m) = Some current"
  shows
    "let prevEma20 = ToNumber (ema20 current);
         prevEma100 = ToNumber (ema100 current);
         newEma20 = calculateSingleEMA (k_c m) prevEma20 20;
         newEma100 = calculateSingleEMA (k_c m) prevEma100 100;
         touching = js_le (js_abs (js_sub newEma20 newEma100))
                      (js_mul_double newEma100 (Num double_0_00015));
         calls = snd (updater alerts_c now m prev)
     in calls = alert_block alerts_c now (symbol current) (k_c m)
                  (js_gt prevEma20 prevEma100 \<noteq> js_gt newEma20 newEma100)
                  (js_gt newEma20 newEma100) touching \<and>
        ((\<exists>c \<in> set (snd (updater [] now m prev)). snd (snd c) \<noteq> touch) =
           (js_gt prevEma20 prevEma100 \<noteq> js_gt newEma20 newEma100)) \<and>
        (newEma20 = newEma100 \<longrightarrow>
           \<not> js_gt newEma20 newEma100 \<and> (symbol current, k_c m, bullish_cross) \<notin> set calls) \<and>
        (\<forall>m2 now2. msg_s m2 = msg_s m \<longrightarrow>
           (\<exists>c \<in> set (snd (updater [] now2 m2 (fst (updater alerts_c now m prev)))).
               snd (snd c) \<noteq> touch) =
           (js_gt newEma20 newEma100 \<noteq>
            js_gt (calculateSingleEMA (k_c m2) newEma20 20)
                  (calculateSingleEMA (k_c m2) newEma100 100))) \<and>
        (\<forall>p20 p100 n20 n100 s cl t t'.
           (js_gt p20 p100 \<or> js_gt p100 p20) \<and> (js_gt n20 n100 \<or> js_gt n100 n20) \<longrightarrow>
           (map (snd \<circ> snd)
              (alert_block [] now s cl (js_gt p20 p100 \<noteq> js_gt n20 n100) (js_gt n20 n100) t) =
            [bullish_cross]) =
           (map (snd \<circ> snd)
              (alert_block [] now s cl (js_gt p100 p20 \<noteq> js_gt n100 n20) (js_gt n100 n20) t') =
            [bearish_cross]))"
  unfolding Let_def
proof (intro conjI allI impI)
  note uc = updater_calls [of prev m current, OF assms]
  let ?n20 = "calculateSingleEMA (k_c m) (ToNumber (ema20 current)) 20"
  let ?n100 = "calculateSingleEMA (k_c m) (ToNumber (ema100 current)) 100"
  show "snd (updater alerts_c now m prev) =
      alert_block alerts_c now (symbol current) (k_c m)
        (js_gt (ToNumber (ema20 current)) (ToNumber (ema100 current)) \<noteq> js_gt ?n20 ?n100)
        (js_gt ?n20 ?n100)
        (js_le (js_abs (js_sub ?n20 ?n100)) (js_mul_double ?n100 (Num double_0_00015)))"
    by (rule uc)
  show "(\<exists>c \<in> set (snd (updater [] now m prev)). snd (snd c) \<noteq> touch) =
      (js_gt (ToNumber (ema20 current)) (ToNumber (ema100 current)) \<noteq> js_gt ?n20 ?n100)"
    unfolding uc by (rule cross_call_iff)
  {
    assume eq: "?n20 = ?n100"
    show "\<not> js_gt ?n20 ?n100" using eq by simp
    show "(symbol current, k_c m, bullish_cross) \<notin> set (snd (updater alerts_c now m prev))"
      unfolding uc using eq by (simp add: alert_block_cases)
  }
  {
    fix m2 :: kline_msg and now2 :: int
    assume s2: "msg_s m2 = msg_s m"
    let ?prev' = "fst (updater alerts_c now m prev)"
    obtain p where p: "?prev' (msg_s m2) = Some p" "ema20 p = Some ?n20" "ema100 p = Some ?n100"
      using s2 by (simp add: updater_store [of prev m current, OF assms])
    show "(\<exists>c \<in> set (snd (updater [] now2 m2 ?prev')). snd (snd c) \<noteq> touch) =
        (js_gt ?n20 ?n100 \<noteq>
         js_gt (calculateSingleEMA (k_c m2) ?n20 20) (calculateSingleEMA (k_c m2) ?n100 100))"
      unfolding updater_calls [of ?prev' m2 p, OF p(1)] cross_call_iff
      using p(2,3) by simp
  }
  {
    fix p20 p100 n20 n100 :: number and s :: string and cl :: number and t t' :: bool
    assume a: "(js_gt p20 p100 \<or> js_gt p100 p20) \<and> (js_gt n20 n100 \<or> js_gt n100 n20)"
    show "(map (snd \<circ> snd)
              (alert_block [] now s cl (js_gt p20 p100 \<noteq> js_gt n20 n100) (js_gt n20 n100) t) =
            [bullish_cross]) =
           (map (snd \<circ> snd)
              (alert_block [] now s cl (js_gt p100 p20 \<noteq> js_gt n100 n20) (js_gt n100 n20) t') =
            [bearish_cross])"
      by (rule swap_flips) (use a in blast)+
  }
qed

theorem cross_predicate_witness:
  "btc_store 100 (100001 / 1000) (msg_s (btc_tick (1001 / 10) False)) =
     Some (btc_pair 100 (100001 / 1000)) \<and>
   (\<exists>c \<in> set (snd (updater [] 0 (btc_tick (1001 / 10) False) (btc_store 100 (100001 / 1000)))).
      snd (snd c) \<noteq> touch) \<and>
   btc_store 100 100 (msg_s (btc_tick 100 False)) = Some (btc_pair 100 100) \<and>
   calculateSingleEMA (k_c (btc_tick 100 False)) (ToNumber (ema20 (btc_pair 100 100))) 20 =
     calculateSingleEMA (k_c (btc_tick 100 False)) (ToNumber (ema100 (btc_pair 100 100))) 100 \<and>
   (symbol (btc_pair 100 100), k_c (btc_tick 100 False), bullish_cross) \<notin>
     set (snd (updater [] 0 (btc_tick 100 False) (btc_store 100 100))) \<and>
   msg_s (btc_tick 110 False) = msg_s (btc_tick 100 False) \<and>
   (\<exists>c \<in> set (snd (updater [] 1 (btc_tick 110 False)
                     (fst (updater [] 0 (btc_tick 100 False) (btc_store 100 100))))).
      snd (snd c) \<noteq> touch) \<and>
   js_gt (Num 100) (Num 101) \<noteq> js_gt (Num 102) (Num 101) \<and>
   (map (snd \<circ> snd)
      (alert_block [] 0 ''btcusdt.p'' (Num 102)
         (js_gt (Num 100) (Num 101) \<noteq> js_gt (Num 102) (Num 101))
         (js_gt (Num 102) (Num 101)) False) = [bullish_cross]) \<and>
   (map (snd \<circ> snd)
      (alert_block [] 0 ''btcusdt.p'' (Num 102)
         (js_gt (Num 101) (Num 100) \<noteq> js_gt (Num 101) (Num 102))
         (js_gt (Num 101) (Num 102)) False) = [bearish_cross])"
proof -
  have h: "btc_store 100 (100001 / 1000) (msg_s (btc_tick (1001 / 10) False)) =
     Some (btc_pair 100 (100001 / 1000))"
    by (simp add: btc_store_def btc_tick_def)
  note t = cross_predicate [of "btc_store 100 (100001 / 1000)" "btc_tick (1001 / 10) False"
      "btc_pair 100 (100001 / 1000)" "[]" 0, OF h, unfolded Let_def]
  have a: "\<exists>c \<in> set (snd (updater [] 0 (btc_tick (1001 / 10) False) (btc_store 100 (100001 / 1000)))).
      snd (snd c) \<noteq> touch"
    using t [THEN conjunct2, THEN conjunct1]
    by (simp add: btc_pair_def btc_tick_def calculateSingleEMA_def)
  have h2: "btc_store 100 100 (msg_s (btc_tick 100 False)) = Some (btc_pair 100 100)"
    by (simp add: btc_store_def btc_tick_def)
  note u = cross_predicate [of "btc_store 100 100" "btc_tick 100 False" "btc_pair 100 100" "[]" 0,
      OF h2, unfolded Let_def]
  have eq: "calculateSingleEMA (k_c (btc_tick 100 False)) (ToNumber (ema20 (btc_pair 100 100))) 20 =
     calculateSingleEMA (k_c (btc_tick 100 False)) (ToNumber (ema100 (btc_pair 100 100))) 100"
    by (simp add: btc_pair_def btc_tick_def calculateSingleEMA_def)
  have nb: "(symbol (btc_pair 100 100), k_c (btc_tick 100 False), bullish_cross) \<notin>
     set (snd (updater [] 0 (btc_tick 100 False) (btc_store 100 100)))"
    using u [THEN conjunct2, THEN conjunct2, THEN conjunct1, rule_format, OF eq] by blast
  have s2: "msg_s (btc_tick 110 False) = msg_s (btc_tick 100 False)" by (simp add: btc_tick_def)
  have nx: "\<exists>c \<in> set (snd (updater [] 1 (btc_tick 110 False)
                     (fst (updater [] 0 (btc_tick 100 False) (btc_store 100 100))))).
      snd (snd c) \<noteq> touch"
    using u [THEN conjunct2, THEN conjunct2, THEN conjunct2, THEN conjunct1, rule_format, OF s2,
        of 1]
    by (simp add: btc_pair_def btc_tick_def calculateSingleEMA_def)
  have b: "map (snd \<circ> snd)
      (alert_block [] 0 ''btcusdt.p'' (Num 102)
         (js_gt (Num 100) (Num 101) \<noteq> js_gt (Num 102) (Num 101))
         (js_gt (Num 102) (Num 101)) False) = [bullish_cross]"
    by (simp add: alert_block_fresh)
  have c: "(js_gt (Num 100) (Num 101) \<or> js_gt (Num 101) (Num 100)) \<and>
           (js_gt (Num 102) (Num 101) \<or> js_gt (Num 101) (Num 102))"
    by simp
  note sym = t [THEN conjunct2, THEN conjunct2, THEN conjunct2, THEN conjunct2]
  from sym [rule_format, OF c, of "''btcusdt.p''" "Num 102" False False] b
  have d: "map (snd \<circ> snd)
      (alert_block [] 0 ''btcusdt.p'' (Num 102)
         (js_gt (Num 101) (Num 100) \<noteq> js_gt (Num 101) (Num 102))
         (js_gt (Num 101) (Num 102)) False) = [bearish_cross]"
    by blast
  have e: "js_gt (Num 100) (Num 101) \<noteq> js_gt (Num 102) (Num 101)" by simp
  from h a h2 eq nb s2 nx e b d show ?thesis by blast
qed

subsection \<open>Deduplication\<close>

text \<open>
  Claim C1 says that a signal for a symbol is suppressed when the head of the alert
  log has the same symbol and is less than 300,000 ms old.  The handler does not do
  so.  Its closure sees the empty initial value of \<^verbatim>\<open>alerts\<close>, and the recorded
  symbol is the upper-cased label, which never equals \<^verbatim>\<open>current.symbol\<close>.  Two touch
  ticks for BTCUSDT one minute apart are both recorded by the installed handler, and
  also by a handler that sees the log as it is; the guard itself suppresses when the
  head carries the label as stored in the instrument.
\<close>

theorem dedup_never_suppresses:
  "alerts (run two_ticks (btc_state 100 100)) =
     [touch_alert ''b'' 1060000, touch_alert ''a'' 1000000] \<and>
   alerts (ws_onmessage 1000000 ''a'' (Kline (btc_tick 100 False)) (btc_state 100 100)) =
     [touch_alert ''a'' 1000000] \<and>
   alerts (onmessage [touch_alert ''a'' 1000000] 1060000 ''b'' (Kline (btc_tick 100 False))
             (ws_onmessage 1000000 ''a'' (Kline (btc_tick 100 False)) (btc_state 100 100))) =
     [touch_alert ''b'' 1060000, touch_alert ''a'' 1000000] \<and>
   alert_block [(touch_alert ''a'' 1000000)\<lparr>alert_symbol := ''btcusdt.p''\<rparr>] 1060000
     ''btcusdt.p'' (Num 100) False False True = []"
  by (simp add: two_ticks_def ws_onmessage_def onmessage_Kline btc_state_def btc_store_flag
      btc_touch_calls alert_block_def triggerAlert_def upper_btc touch_alert_def)

section \<open>Properties of the seeding and of the bounded containers\<close>

lemma read_rows_map_Row: "read_rows (map Row klines) = Some klines"
  by (induction klines) simp_all

lemma read_rows_NullRow: "NullRow \<in> set ds \<Longrightarrow> read_rows ds = None"
proof (induction ds)
  case Nil
  then show ?case by simp
next
  case (Cons d ds)
  then show ?case by (cases d) (auto split: option.split)
qed

lemma read_rows_length: "read_rows ds = Some klines \<Longrightarrow> length klines = length ds"
proof (induction ds arbitrary: klines)
  case Nil
  then show ?case by simp
next
  case (Cons d ds)
  then show ?case by (cases d) (auto split: option.splits)
qed

lemma init_pair_other:
  "s \<noteq> ticker \<Longrightarrow> init_pair fetch m (raw, ticker) s = m s"
  by (simp add: init_pair_def split: response.split option.split)

lemma init_pair_same:
  "init_pair fetch m (raw, ticker) ticker =
     (case fetch ticker of
        Array ds \<Rightarrow>
          (case read_rows ds of Some klines \<Rightarrow> Some (seeded raw klines) | None \<Rightarrow> m ticker)
      | NotArray \<Rightarrow> m ticker
      | Throws \<Rightarrow> m ticker)"
  by (simp add: init_pair_def split: response.split option.split)

lemma foldl_init_pair_notin:
  "s \<notin> snd ` set ps \<Longrightarrow> foldl (init_pair fetch) m ps s = m s"
proof (induction ps arbitrary: m)
  case Nil
  then show ?case by simp
next
  case (Cons e ps)
  obtain raw ticker where e: "e = (raw, ticker)" by (cases e)
  with Cons.prems have "s \<noteq> ticker" "s \<notin> snd ` set ps" by auto
  then show ?case using Cons.IH e by (simp add: init_pair_other)
qed

lemma foldl_init_pair_in:
  "distinct (map snd ps) \<Longrightarrow> (raw, ticker) \<in> set ps \<Longrightarrow>
   foldl (init_pair fetch) m ps ticker =
     (case fetch ticker of
        Array ds \<Rightarrow>
          (case read_rows ds of Some klines \<Rightarrow> Some (seeded raw klines) | None \<Rightarrow> m ticker)
      | NotArray \<Rightarrow> m ticker
      | Throws \<Rightarrow> m ticker)"
proof (induction ps arbitrary: m)
  case Nil
  then show ?case by simp
next
  case (Cons e ps)
  show ?case
  proof (cases "e = (raw, ticker)")
    case True
    with Cons.prems(1) have "ticker \<notin> snd ` set ps" by simp
    then show ?thesis
      using True by (simp add: foldl_init_pair_notin init_pair_same)
  next
    case False
    obtain raw' ticker' where e: "e = (raw', ticker')" by (cases e)
    from False Cons.prems(2) have mem: "(raw, ticker) \<in> set ps" by simp
    then have "ticker \<in> snd ` set ps" by force
    with Cons.prems(1) e have ne: "ticker \<noteq> ticker'" by auto
    from Cons.prems(1) have d: "distinct (map snd ps)" by simp
    show ?thesis
      using Cons.IH [OF d mem, of "init_pair fetch m (raw', ticker')"] ne
      by (simp add: e init_pair_other split: response.split option.split)
  qed
qed

lemma SYMBOLS_MAP_distinct: "distinct (map snd SYMBOLS_MAP)"
  by (simp add: SYMBOLS_MAP_def)

lemma initPairs_known:
  "(raw, ticker) \<in> set SYMBOLS_MAP \<Longrightarrow>
   initPairs fetch ticker =
     (case fetch ticker of
        Array ds \<Rightarrow>
          (case read_rows ds of Some klines \<Rightarrow> Some (seeded raw klines) | None \<Rightarrow> None)
      | NotArray \<Rightarrow> None
      | Throws \<Rightarrow> None)"
  unfolding initPairs_def
  by (simp add: foldl_init_pair_in [OF SYMBOLS_MAP_distinct])

lemma initPairs_unknown:
  "ticker \<notin> snd ` set SYMBOLS_MAP \<Longrightarrow> initPairs fetch ticker = None"
  unfolding initPairs_def by (simp add: foldl_init_pair_notin)

lemma initPairs_Some:
  assumes "initPairs fetch ticker = Some p"
  shows "\<exists>raw ds klines. fetch ticker = Array ds \<and> read_rows ds = Some klines \<and>
           p = seeded raw klines"
proof (cases "ticker \<in> snd ` set SYMBOLS_MAP")
  case True
  then obtain raw where "(raw, ticker) \<in> set SYMBOLS_MAP" by force
  from initPairs_known [OF this, of fetch] assms show ?thesis
    by (cases "fetch ticker") (auto split: option.splits)
next
  case False
  with assms show ?thesis by (simp add: initPairs_unknown)
qed

lemma sparse_at_last: "sparse_at (xs @ [x]) (int (length (xs @ [x])) - 1) = x"
  by (simp add: sparse_at_def nth_append)

lemma seeded_fields: "symbol (seeded raw klines) = raw \<and> history (seeded raw klines) = klines"
  by (simp add: seeded_def Let_def)

lemma seeded_short100: "length klines < 100 \<Longrightarrow> ema100 (seeded raw klines) = Some NaN"
  using calculateEMA_short [of "map close klines" 100]
  by (simp add: seeded_def Let_def sparse_at_last del: length_append)

lemma seeded_short20: "length klines < 20 \<Longrightarrow> ema20 (seeded raw klines) = Some NaN"
  using calculateEMA_short [of "map close klines" 20]
  by (simp add: seeded_def Let_def sparse_at_last del: length_append)

subsection \<open>Seeding\<close>

text \<open>
  The claim that an instrument with fewer than 100 seed candles is omitted fails: an
  array of a single row for BTCUSDT yields an entry, whose two EMAs are \<^verbatim>\<open>NaN\<close>.
\<close>

theorem short_seed_is_entered:
  "(''btcusdt.p'', ''BTCUSDT'') \<in> set SYMBOLS_MAP \<and>
   short_fetch ''BTCUSDT'' = Array [Row (seed_row 100)] \<and>
   length [Row (seed_row 100)] < 100 \<and>
   initPairs short_fetch ''BTCUSDT'' = Some (seeded ''btcusdt.p'' [seed_row 100]) \<and>
   ema100 (seeded ''btcusdt.p'' [seed_row 100]) = Some NaN \<and>
   ema20 (seeded ''btcusdt.p'' [seed_row 100]) = Some NaN \<and>
   initPairs short_fetch ''BTCUSDT'' \<noteq> None"
proof -
  have m: "(''btcusdt.p'', ''BTCUSDT'') \<in> set SYMBOLS_MAP" by (simp add: SYMBOLS_MAP_def)
  have f: "short_fetch ''BTCUSDT'' = Array [Row (seed_row 100)]" by (simp add: short_fetch_def)
  have i: "initPairs short_fetch ''BTCUSDT'' = Some (seeded ''btcusdt.p'' [seed_row 100])"
    using initPairs_known [OF m, of short_fetch] f by simp
  show ?thesis using m f i by (simp add: seeded_short100 seeded_short20)
qed

text \<open>
  Claim C2, as amended.  For every tracked instrument whose seed request throws or
  whose seed data is not an array, \<^verbatim>\<open>initPairs\<close> leaves the instrument out of the
  store, as it does when a row of the array cannot be read.  An instrument whose seed
  data is an array of fewer than 100 rows, each of which can be read, is not left out:
  it is entered with its label and its rows, and its \<^verbatim>\<open>ema100\<close> is \<^verbatim>\<open>NaN\<close>; with fewer
  than 20 rows its \<^verbatim>\<open>ema20\<close> is \<^verbatim>\<open>NaN\<close> too.  What is stored for an instrument depends
  on the answer for that instrument alone, so a failure elsewhere does not prevent it.
\<close>

theorem seed_failures_omitted:
  assumes "(raw, ticker) \<in> set SYMBOLS_MAP"
  shows "(fetch ticker = Throws \<or> fetch ticker = NotArray \<longrightarrow> initPairs fetch ticker = None) \<and>
    (\<forall>ds. fetch ticker = Array ds \<and> NullRow \<in> set ds \<longrightarrow> initPairs fetch ticker = None) \<and>
    (\<forall>klines. fetch ticker = Array (map Row klines) \<and> length klines < 100 \<longrightarrow>
       (\<exists>p. initPairs fetch ticker = Some p \<and> symbol p = raw \<and> history p = klines \<and>
            ema100 p = Some NaN \<and> (length klines < 20 \<longrightarrow> ema20 p = Some NaN))) \<and>
    (\<forall>fetch'. fetch' ticker = fetch ticker \<longrightarrow> initPairs fetch' ticker = initPairs fetch ticker)"
proof (intro conjI allI impI)
  assume "fetch ticker = Throws \<or> fetch ticker = NotArray"
  then show "initPairs fetch ticker = None"
    using initPairs_known [OF assms, of fetch] by auto
next
  fix ds assume "fetch ticker = Array ds \<and> NullRow \<in> set ds"
  then show "initPairs fetch ticker = None"
    using initPairs_known [OF assms, of fetch] by (simp add: read_rows_NullRow)
next
  fix klines assume a: "fetch ticker = Array (map Row klines) \<and> length klines < 100"
  have "initPairs fetch ticker = Some (seeded raw klines)"
    using initPairs_known [OF assms, of fetch] a by (simp add: read_rows_map_Row)
  then show "\<exists>p. initPairs fetch ticker = Some p \<and> symbol p = raw \<and> history p = klines \<and>
            ema100 p = Some NaN \<and> (length klines < 20 \<longrightarrow> ema20 p = Some NaN)"
    using a by (simp add: seeded_fields seeded_short100 seeded_short20)
next
  fix fetch' :: "string \<Rightarrow> response"
  assume "fetch' ticker = fetch ticker"
  then show "initPairs fetch' ticker = initPairs fetch ticker"
    by (simp add: initPairs_known [OF assms])
qed

theorem seed_failures_omitted_witness:
  "(''ethusdt.p'', ''ETHUSDT'') \<in> set SYMBOLS_MAP \<and> short_fetch ''ETHUSDT'' = Throws \<and>
   initPairs short_fetch ''ETHUSDT'' = None \<and>
   (''solusdt.p'', ''SOLUSDT'') \<in> set SYMBOLS_MAP \<and> short_fetch ''SOLUSDT'' = NotArray \<and>
   initPairs short_fetch ''SOLUSDT'' = None \<and>
   (''icpusdt.p'', ''ICPUSDT'') \<in> set SYMBOLS_MAP \<and>
   short_fetch ''ICPUSDT'' = Array [Row (seed_row 100), NullRow] \<and>
   NullRow \<in> set [Row (seed_row 100), NullRow] \<and>
   initPairs short_fetch ''ICPUSDT'' = None \<and>
   (''btcusdt.p'', ''BTCUSDT'') \<in> set SYMBOLS_MAP \<and>
   short_fetch ''BTCUSDT'' = Array (map Row [seed_row 100]) \<and>
   length [seed_row 100] < 20 \<and>
   (\<exists>p. initPairs short_fetch ''BTCUSDT'' = Some p \<and> symbol p = ''btcusdt.p'' \<and>
        history p = [seed_row 100] \<and> ema100 p = Some NaN \<and> ema20 p = Some NaN)"
proof -
  have e: "(''ethusdt.p'', ''ETHUSDT'') \<in> set SYMBOLS_MAP" by (simp add: SYMBOLS_MAP_def)
  have s: "(''solusdt.p'', ''SOLUSDT'') \<in> set SYMBOLS_MAP" by (simp add: SYMBOLS_MAP_def)
  have i: "(''icpusdt.p'', ''ICPUSDT'') \<in> set SYMBOLS_MAP" by (simp add: SYMBOLS_MAP_def)
  have b: "(''btcusdt.p'', ''BTCUSDT'') \<in> set SYMBOLS_MAP" by (simp add: SYMBOLS_MAP_def)
  have ef: "short_fetch ''ETHUSDT'' = Throws" by (simp add: short_fetch_def)
  have sf: "short_fetch ''SOLUSDT'' = NotArray" by (simp add: short_fetch_def)
  have "short_fetch ''ICPUSDT'' = Array [Row (seed_row 100), NullRow]"
    by (simp add: short_fetch_def)
  moreover have n: "NullRow \<in> set [Row (seed_row 100), NullRow]" by simp
  ultimately have "if": "short_fetch ''ICPUSDT'' = Array [Row (seed_row 100), NullRow] \<and>
      NullRow \<in> set [Row (seed_row 100), NullRow]"
    by blast
  have "short_fetch ''BTCUSDT'' = Array (map Row [seed_row 100])" by (simp add: short_fetch_def)
  moreover have l: "length [seed_row 100] < 20" by simp
  ultimately have bf: "short_fetch ''BTCUSDT'' = Array (map Row [seed_row 100]) \<and>
      length [seed_row 100] < 100"
    by simp
  have 1: "initPairs short_fetch ''ETHUSDT'' = None"
    using seed_failures_omitted [OF e, of short_fetch, THEN conjunct1] ef by simp
  have 2: "initPairs short_fetch ''SOLUSDT'' = None"
    using seed_failures_omitted [OF s, of short_fetch, THEN conjunct1] sf by simp
  have 3: "initPairs short_fetch ''ICPUSDT'' = None"
    using seed_failures_omitted [OF i, of short_fetch, THEN conjunct2, THEN conjunct1,
        rule_format, OF "if"] .
  have 4: "\<exists>p. initPairs short_fetch ''BTCUSDT'' = Some p \<and> symbol p = ''btcusdt.p'' \<and>
        history p = [seed_row 100] \<and> ema100 p = Some NaN \<and> ema20 p = Some NaN"
    using seed_failures_omitted [OF b, of short_fetch, THEN conjunct2, THEN conjunct2,
        THEN conjunct1, rule_format, OF bf] l
    by blast
  from e s i b ef sf "if" bf l 1 2 3 4 show ?thesis by blast
qed

subsection \<open>The bounded alert log and histories\<close>

lemma triggerAlert_length: "length (triggerAlert fresh_id now s p ty al) \<le> 50"
  by (simp add: triggerAlert_def)

lemma triggerAlert_take:
  "\<exists>a. timestamp a = now \<and> triggerAlert fresh_id now s p ty al = take 50 (a # al)"
  by (simp add: triggerAlert_def)

lemma alert_block_shape:
  "alert_block alerts_c now s c crossed isAbove touching = [] \<or>
   (\<exists>ty. alert_block alerts_c now s c crossed isAbove touching = [(s, c, ty)])"
  by (simp add: alert_block_cases)

lemma updater_calls_shape:
  "snd (updater alerts_c now m prev) = [] \<or>
   (\<exists>s c ty. snd (updater alerts_c now m prev) = [(s, c, ty)])"
proof (cases "prev (msg_s m)")
  case None
  then show ?thesis by (simp add: updater_unknown)
next
  case (Some current)
  show ?thesis
    unfolding updater_calls [of prev m current, OF Some]
    using alert_block_shape by blast
qed

lemma onmessage_alerts:
  "alerts (onmessage alerts_c now fresh_id msg st) = alerts st \<or>
   (\<exists>s c ty. alerts (onmessage alerts_c now fresh_id msg st) =
        triggerAlert fresh_id now s c ty (alerts st))"
proof (cases msg)
  case (Kline m)
  from updater_calls_shape [of alerts_c now m "pairsData st"] show ?thesis
  proof
    assume "snd (updater alerts_c now m (pairsData st)) = []"
    then show ?thesis using Kline by (simp add: onmessage_Kline)
  next
    assume "\<exists>s c ty. snd (updater alerts_c now m (pairsData st)) = [(s, c, ty)]"
    then obtain s c ty where "snd (updater alerts_c now m (pairsData st)) = [(s, c, ty)]"
      by blast
    then have "alerts (onmessage alerts_c now fresh_id msg st) =
        triggerAlert fresh_id now s c ty (alerts st)"
      using Kline by (simp add: onmessage_Kline)
    then show ?thesis by blast
  qed
next
  case Other
  then show ?thesis by (simp add: onmessage_Other)
qed

lemma onmessage_alerts_take:
  "alerts (onmessage alerts_c now fresh_id msg st) = alerts st \<or>
   (\<exists>a. timestamp a = now \<and>
      alerts (onmessage alerts_c now fresh_id msg st) = take 50 (a # alerts st))"
  using onmessage_alerts [of alerts_c now fresh_id msg st] triggerAlert_take by metis

lemma onmessage_alerts_length:
  "length (alerts st) \<le> 50 \<Longrightarrow> length (alerts (onmessage alerts_c now fresh_id msg st)) \<le> 50"
  using onmessage_alerts [of alerts_c now fresh_id msg st] triggerAlert_length by metis

lemma sorted_wrt_take: "sorted_wrt P xs \<Longrightarrow> sorted_wrt P (take n xs)"
  by (metis append_take_drop_id sorted_wrt_append)

lemma onmessage_alerts_sorted:
  assumes "sorted_wrt (\<lambda>a b. timestamp b \<le> timestamp a) (alerts st)"
    and "\<forall>a \<in> set (alerts st). timestamp a \<le> now"
  shows "sorted_wrt (\<lambda>a b. timestamp b \<le> timestamp a)
           (alerts (onmessage alerts_c now fresh_id msg st))"
  using onmessage_alerts_take [of alerts_c now fresh_id msg st]
proof
  assume "alerts (onmessage alerts_c now fresh_id msg st) = alerts st"
  then show ?thesis using assms(1) by simp
next
  assume "\<exists>a. timestamp a = now \<and>
      alerts (onmessage alerts_c now fresh_id msg st) = take 50 (a # alerts st)"
  then obtain a where a: "timestamp a = now"
    "alerts (onmessage alerts_c now fresh_id msg st) = take 50 (a # alerts st)" by blast
  have "sorted_wrt (\<lambda>a b. timestamp b \<le> timestamp a) (a # alerts st)"
    using assms a(1) by simp
  then show ?thesis unfolding a(2) by (rule sorted_wrt_take)
qed

lemma triggerAlert_eq:
  "triggerAlert fresh_id now s pr ty al =
     take 50 (\<lparr>alert_id = fresh_id, alert_symbol = toUpperCase s, timestamp = now,
                alert_price = pr, alert_type = ty\<rparr> # al)"
  by (simp add: triggerAlert_def Let_def)

lemma ws_onmessage_alerts:
  assumes "pairsData st (msg_s m) = Some current"
  shows "alerts (ws_onmessage now fresh_id (Kline m) st) =
     (let newEma20 = calculateSingleEMA (k_c m) (ToNumber (ema20 current)) 20;
          newEma100 = calculateSingleEMA (k_c m) (ToNumber (ema100 current)) 100;
          crossed = (js_gt (ToNumber (ema20 current)) (ToNumber (ema100 current)) \<noteq>
                     js_gt newEma20 newEma100);
          touching = js_le (js_abs (js_sub newEma20 newEma100))
                       (js_mul_double newEma100 (Num double_0_00015))
      in if crossed \<or> touching
         then take 50
           (\<lparr>alert_id = fresh_id, alert_symbol = toUpperCase (symbol current),
              timestamp = now, alert_price = k_c m,
              alert_type =
                (if crossed
                 then (if js_gt newEma20 newEma100 then bullish_cross else bearish_cross)
                 else touch)\<rparr> # alerts st)
         else alerts st)"
  by (simp add: ws_onmessage_def onmessage_Kline Let_def
      updater_calls [of "pairsData st" m current, OF assms] alert_block_fresh triggerAlert_eq)

lemma onmessage_history:
  assumes "pairsData st (msg_s m) = Some current"
  shows "\<exists>p. pairsData (onmessage alerts_c now fresh_id (Kline m) st) (msg_s m) = Some p \<and>
     price p = Some (k_c m) \<and>
     ema20 p = Some (calculateSingleEMA (k_c m) (ToNumber (ema20 current)) 20) \<and>
     ema100 p = Some (calculateSingleEMA (k_c m) (ToNumber (ema100 current)) 100) \<and>
     (\<not> k_x m \<longrightarrow> history p = history current) \<and>
     (k_x m \<longrightarrow>
        history p =
          (if length (history current @
                [\<lparr>time = k_t m, open_p = k_o m, high = k_h m, low = k_l m, close = k_c m\<rparr>])
              > 200
           then tl (history current @
                [\<lparr>time = k_t m, open_p = k_o m, high = k_h m, low = k_l m, close = k_c m\<rparr>])
           else history current @
                [\<lparr>time = k_t m, open_p = k_o m, high = k_h m, low = k_l m, close = k_c m\<rparr>])) \<and>
     length (history p) \<le> max 200 (length (history current))"
  unfolding onmessage_store updater_store [of "pairsData st" m current, OF assms]
  by simp

lemma onmessage_history_max:
  assumes "pairsData (onmessage alerts_c now fresh_id msg st) s = Some p"
  shows "\<exists>q. pairsData st s = Some q \<and> length (history p) \<le> max 200 (length (history q))"
proof (cases msg)
  case Other
  with assms show ?thesis by (simp add: onmessage_Other)
next
  case (Kline m)
  show ?thesis
  proof (cases "pairsData st (msg_s m)")
    case None
    with assms Kline show ?thesis by (simp add: onmessage_store updater_unknown)
  next
    case (Some current)
    show ?thesis
    proof (cases "s = msg_s m")
      case True
      from onmessage_history [OF Some, of alerts_c now fresh_id]
      obtain q where "pairsData (onmessage alerts_c now fresh_id (Kline m) st) (msg_s m) = Some q"
        "length (history q) \<le> max 200 (length (history current))" by blast
      with assms Kline True Some show ?thesis by simp
    next
      case False
      then have "pairsData (onmessage alerts_c now fresh_id msg st) s = pairsData st s"
        using Kline by (simp add: onmessage_store updater_store [of "pairsData st" m current, OF Some])
      with assms show ?thesis by simp
    qed
  qed
qed

lemma run_log_bound:
  "length (alerts st) \<le> 50 \<Longrightarrow> length (alerts (run events st)) \<le> 50"
proof (induction events arbitrary: st)
  case Nil
  then show ?case by simp
next
  case (Cons e events)
  obtain now fresh_id msg where e: "e = (now, fresh_id, msg)" by (cases e)
  have "length (alerts (ws_onmessage now fresh_id msg st)) \<le> 50"
    unfolding ws_onmessage_def using Cons.prems by (rule onmessage_alerts_length)
  from Cons.IH [OF this] e show ?case by simp
qed

lemma run_history_max:
  "pairsData (run events st) s = Some p \<Longrightarrow>
   \<exists>q. pairsData st s = Some q \<and> length (history p) \<le> max 200 (length (history q))"
proof (induction events arbitrary: st)
  case Nil
  then show ?case by simp
next
  case (Cons e events)
  obtain now fresh_id msg where e: "e = (now, fresh_id, msg)" by (cases e)
  let ?st = "ws_onmessage now fresh_id msg st"
  from Cons.prems e have "pairsData (run events ?st) s = Some p" by simp
  from Cons.IH [OF this] obtain q where
    q: "pairsData ?st s = Some q" "length (history p) \<le> max 200 (length (history q))"
    by blast
  from onmessage_history_max [OF q(1) [unfolded ws_onmessage_def]] obtain r where
    "pairsData st s = Some r" "length (history q) \<le> max 200 (length (history r))"
    by blast
  with q(2) show ?case by auto
qed

lemma init_state_history:
  assumes "pairsData (init_state fetch) s = Some q"
  shows "\<exists>ds klines. fetch s = Array ds \<and> read_rows ds = Some klines \<and> history q = klines"
proof -
  from assms have "initPairs fetch s = Some q" by (simp add: init_state_def)
  then show ?thesis using initPairs_Some [of fetch s q] by (auto simp add: seeded_fields)
qed

lemma wide_seed:
  "pairsData (init_state wide_fetch) ''BTCUSDT'' =
     Some (seeded ''btcusdt.p'' (replicate 201 (seed_row 1)))"
proof -
  have m: "(''btcusdt.p'', ''BTCUSDT'') \<in> set SYMBOLS_MAP" by (simp add: SYMBOLS_MAP_def)
  have "read_rows (replicate 201 (Row (seed_row 1))) = Some (replicate 201 (seed_row 1))"
    using read_rows_map_Row [of "replicate 201 (seed_row 1)"] by simp
  then show ?thesis
    using initPairs_known [OF m, of wide_fetch] by (simp add: init_state_def wide_fetch_def)
qed

text \<open>
  The claim that every history has at most 200 candles after every operation fails: the
  rows of the seed are stored as they come, so a seed of 201 rows gives a history of
  201 candles, and after a tick that closes a candle it still has 201.
\<close>

theorem long_seed_exceeds_200:
  "wide_fetch ''BTCUSDT'' = Array (replicate 201 (Row (seed_row 1))) \<and>
   map_option (length \<circ> history) (pairsData (init_state wide_fetch) ''BTCUSDT'') = Some 201 \<and>
   map_option (length \<circ> history)
     (pairsData (ws_onmessage 5 ''a'' (Kline (btc_tick 1 True)) (init_state wide_fetch))
        ''BTCUSDT'') = Some 201 \<and>
   \<not> (201 \<le> (200::nat))"
proof -
  have s: "pairsData (init_state wide_fetch) (msg_s (btc_tick 1 True)) =
     Some (seeded ''btcusdt.p'' (replicate 201 (seed_row 1)))"
    using wide_seed by (simp add: btc_tick_def)
  from onmessage_history [OF s, of "[]" 5 "''a''"] obtain p where
    p: "pairsData (onmessage [] 5 ''a'' (Kline (btc_tick 1 True)) (init_state wide_fetch))
          (msg_s (btc_tick 1 True)) = Some p"
    and h: "k_x (btc_tick 1 True) \<longrightarrow> history p =
          (if length (history (seeded ''btcusdt.p'' (replicate 201 (seed_row 1))) @
                [\<lparr>time = k_t (btc_tick 1 True), open_p = k_o (btc_tick 1 True),
                   high = k_h (btc_tick 1 True), low = k_l (btc_tick 1 True),
                   close = k_c (btc_tick 1 True)\<rparr>]) > 200
           then tl (history (seeded ''btcusdt.p'' (replicate 201 (seed_row 1))) @
                [\<lparr>time = k_t (btc_tick 1 True), open_p = k_o (btc_tick 1 True),
                   high = k_h (btc_tick 1 True), low = k_l (btc_tick 1 True),
                   close = k_c (btc_tick 1 True)\<rparr>])
           else history (seeded ''btcusdt.p'' (replicate 201 (seed_row 1))) @
                [\<lparr>time = k_t (btc_tick 1 True), open_p = k_o (btc_tick 1 True),
                   high = k_h (btc_tick 1 True), low = k_l (btc_tick 1 True),
                   close = k_c (btc_tick 1 True)\<rparr>])"
    by blast
  from h have "length (history p) = 201"
    by (simp add: seeded_fields btc_tick_def)
  with p have "map_option (length \<circ> history)
     (pairsData (ws_onmessage 5 ''a'' (Kline (btc_tick 1 True)) (init_state wide_fetch))
        ''BTCUSDT'') = Some 201"
    by (simp add: ws_onmessage_def btc_tick_def)
  then show ?thesis
    using wide_seed by (simp add: wide_fetch_def seeded_fields)
qed

lemma sorted_wrt_replicate_refl: "P x x \<Longrightarrow> sorted_wrt P (replicate n x)"
  by (induction n) auto

text \<open>
  Claim C8, as amended.  \<^verbatim>\<open>triggerAlert\<close> prepends the new alert to the log and keeps
  the first 50 entries; the installed handler records exactly one such alert on a tick
  of a known symbol that crosses or touches, and none otherwise.  Handling a message
  leaves the log as it is or prepends one alert stamped with the current time; a log of
  at most 50 entries stays so, and a log ordered newest-first stays so while the clock
  does not run backwards.  A tick on a known symbol stores the new price and EMAs; it
  appends a candle to the history only when it closes a candle, and then removes the
  oldest candle when the length exceeds 200; a tick inside a candle leaves the history
  as it is.  A history never grows beyond 200 candles: after any run from the seeding
  the log has at most 50 alerts and every history has at most 200 candles or, when its
  seed held more, at most as many as its seed.
\<close>

theorem bounded_log_and_history:
  "triggerAlert fresh_id now s pr ty al =
     take 50 (\<lparr>alert_id = fresh_id, alert_symbol = toUpperCase s, timestamp = now,
                alert_price = pr, alert_type = ty\<rparr> # al) \<and>
   (\<forall>m current. pairsData st (msg_s m) = Some current \<longrightarrow>
      alerts (ws_onmessage now fresh_id (Kline m) st) =
        (let newEma20 = calculateSingleEMA (k_c m) (ToNumber (ema20 current)) 20;
             newEma100 = calculateSingleEMA (k_c m) (ToNumber (ema100 current)) 100;
             crossed = (js_gt (ToNumber (ema20 current)) (ToNumber (ema100 current)) \<noteq>
                        js_gt newEma20 newEma100);
             touching = js_le (js_abs (js_sub newEma20 newEma100))
                          (js_mul_double newEma100 (Num double_0_00015))
         in if crossed \<or> touching
            then take 50
              (\<lparr>alert_id = fresh_id, alert_symbol = toUpperCase (symbol current),
                 timestamp = now, alert_price = k_c m,
                 alert_type =
                   (if crossed
                    then (if js_gt newEma20 newEma100 then bullish_cross else bearish_cross)
                    else touch)\<rparr> # alerts st)
            else alerts st)) \<and>
   (alerts (onmessage alerts_c now fresh_id msg st) = alerts st \<or>
    (\<exists>a. timestamp a = now \<and>
       alerts (onmessage alerts_c now fresh_id msg st) = take 50 (a # alerts st))) \<and>
   (length (alerts st) \<le> 50 \<longrightarrow>
      length (alerts (onmessage alerts_c now fresh_id msg st)) \<le> 50) \<and>
   (sorted_wrt (\<lambda>a b. timestamp b \<le> timestamp a) (alerts st) \<and>
    (\<forall>a \<in> set (alerts st). timestamp a \<le> now) \<longrightarrow>
      sorted_wrt (\<lambda>a b. timestamp b \<le> timestamp a)
        (alerts (onmessage alerts_c now fresh_id msg st))) \<and>
   (\<forall>m current. pairsData st (msg_s m) = Some current \<longrightarrow>
      (\<exists>p. pairsData (onmessage alerts_c now fresh_id (Kline m) st) (msg_s m) = Some p \<and>
         price p = Some (k_c m) \<and>
         ema20 p = Some (calculateSingleEMA (k_c m) (ToNumber (ema20 current)) 20) \<and>
         ema100 p = Some (calculateSingleEMA (k_c m) (ToNumber (ema100 current)) 100) \<and>
         (\<not> k_x m \<longrightarrow> history p = history current) \<and>
         (k_x m \<longrightarrow>
            history p =
              (if length (history current @
                    [\<lparr>time = k_t m, open_p = k_o m, high = k_h m, low = k_l m,
                      close = k_c m\<rparr>]) > 200
               then tl (history current @
                    [\<lparr>time = k_t m, open_p = k_o m, high = k_h m, low = k_l m,
                      close = k_c m\<rparr>])
               else history current @
                    [\<lparr>time = k_t m, open_p = k_o m, high = k_h m, low = k_l m,
                      close = k_c m\<rparr>])) \<and>
         length (history p) \<le> max 200 (length (history current)))) \<and>
   (\<forall>s p. pairsData (onmessage alerts_c now fresh_id msg st) s = Some p \<longrightarrow>
      (\<exists>q. pairsData st s = Some q \<and> length (history p) \<le> max 200 (length (history q)))) \<and>
   length (alerts (run events (init_state fetch))) \<le> 50 \<and>
   (\<forall>s p. pairsData (run events (init_state fetch)) s = Some p \<longrightarrow>
      (\<exists>ds klines. fetch s = Array ds \<and> read_rows ds = Some klines \<and>
         length (history p) \<le> max 200 (length klines)))"
proof (intro conjI)
  show "triggerAlert fresh_id now s pr ty al =
     take 50 (\<lparr>alert_id = fresh_id, alert_symbol = toUpperCase s, timestamp = now,
                alert_price = pr, alert_type = ty\<rparr> # al)"
    by (rule triggerAlert_eq)
  show "\<forall>m current. pairsData st (msg_s m) = Some current \<longrightarrow>
      alerts (ws_onmessage now fresh_id (Kline m) st) =
        (let newEma20 = calculateSingleEMA (k_c m) (ToNumber (ema20 current)) 20;
             newEma100 = calculateSingleEMA (k_c m) (ToNumber (ema100 current)) 100;
             crossed = (js_gt (ToNumber (ema20 current)) (ToNumber (ema100 current)) \<noteq>
                        js_gt newEma20 newEma100);
             touching = js_le (js_abs (js_sub newEma20 newEma100))
                          (js_mul_double newEma100 (Num double_0_00015))
         in if crossed \<or> touching
            then take 50
              (\<lparr>alert_id = fresh_id, alert_symbol = toUpperCase (symbol current),
                 timestamp = now, alert_price = k_c m,
                 alert_type =
                   (if crossed
                    then (if js_gt newEma20 newEma100 then bullish_cross else bearish_cross)
                    else touch)\<rparr> # alerts st)
            else alerts st)"
    using ws_onmessage_alerts by blast
  show "alerts (onmessage alerts_c now fresh_id msg st) = alerts st \<or>
    (\<exists>a. timestamp a = now \<and>
       alerts (onmessage alerts_c now fresh_id msg st) = take 50 (a # alerts st))"
    by (rule onmessage_alerts_take)
  show "length (alerts st) \<le> 50 \<longrightarrow>
      length (alerts (onmessage alerts_c now fresh_id msg st)) \<le> 50"
    using onmessage_alerts_length by blast
  show "sorted_wrt (\<lambda>a b. timestamp b \<le> timestamp a) (alerts st) \<and>
    (\<forall>a \<in> set (alerts st). timestamp a \<le> now) \<longrightarrow>
      sorted_wrt (\<lambda>a b. timestamp b \<le> timestamp a)
        (alerts (onmessage alerts_c now fresh_id msg st))"
    using onmessage_alerts_sorted by blast
  show "\<forall>m current. pairsData st (msg_s m) = Some current \<longrightarrow>
      (\<exists>p. pairsData (onmessage alerts_c now fresh_id (Kline m) st) (msg_s m) = Some p \<and>
         price p = Some (k_c m) \<and>
         ema20 p = Some (calculateSingleEMA (k_c m) (ToNumber (ema20 current)) 20) \<and>
         ema100 p = Some (calculateSingleEMA (k_c m) (ToNumber (ema100 current)) 100) \<and>
         (\<not> k_x m \<longrightarrow> history p = history current) \<and>
         (k_x m \<longrightarrow>
            history p =
              (if length (history current @
                    [\<lparr>time = k_t m, open_p = k_o m, high = k_h m, low = k_l m,
                      close = k_c m\<rparr>]) > 200
               then tl (history current @
                    [\<lparr>time = k_t m, open_p = k_o m, high = k_h m, low = k_l m,
                      close = k_c m\<rparr>])
               else history current @
                    [\<lparr>time = k_t m, open_p = k_o m, high = k_h m, low = k_l m,
                      close = k_c m\<rparr>])) \<and>
         length (history p) \<le> max 200 (length (history current)))"
    by (intro allI impI) (rule onmessage_history)
  show "\<forall>s p. pairsData (onmessage alerts_c now fresh_id msg st) s = Some p \<longrightarrow>
      (\<exists>q. pairsData st s = Some q \<and> length (history p) \<le> max 200 (length (history q)))"
    using onmessage_history_max by blast
  show "length (alerts (run events (init_state fetch))) \<le> 50"
    by (rule run_log_bound) (simp add: init_state_def)
  show "\<forall>s p. pairsData (run events (init_state fetch)) s = Some p \<longrightarrow>
      (\<exists>ds klines. fetch s = Array ds \<and> read_rows ds = Some klines \<and>
         length (history p) \<le> max 200 (length klines))"
  proof (intro allI impI)
    fix s p assume "pairsData (run events (init_state fetch)) s = Some p"
    from run_history_max [OF this] obtain q where
      q: "pairsData (init_state fetch) s = Some q"
        "length (history p) \<le> max 200 (length (history q))"
      by blast
    from init_state_history [OF q(1)] q(2)
    show "\<exists>ds klines. fetch s = Array ds \<and> read_rows ds = Some klines \<and>
         length (history p) \<le> max 200 (length klines)"
      by auto
  qed
qed

theorem bounded_log_and_history_witness:
  "pairsData logged_state (msg_s (btc_tick 100 False)) = Some (btc_pair 100 100) \<and>
   length (alerts logged_state) = 50 \<and>
   alerts (ws_onmessage 5 ''a'' (Kline (btc_tick 100 False)) logged_state) =
     touch_alert ''a'' 5 #
       replicate 49 \<lparr>alert_id = ''z'', alert_symbol = ''ETHUSDT.P'', timestamp = 0,
           alert_price = Num 1, alert_type = touch\<rparr> \<and>
   length (alerts (onmessage [] 5 ''a'' (Kline (btc_tick 100 False)) logged_state)) \<le> 50 \<and>
   sorted_wrt (\<lambda>a b. timestamp b \<le> timestamp a) (alerts logged_state) \<and>
   sorted_wrt (\<lambda>a b. timestamp b \<le> timestamp a)
     (alerts (onmessage [] 5 ''a'' (Kline (btc_tick 100 False)) logged_state)) \<and>
   pairsData full_state (msg_s (btc_tick 100 True)) = Some full_pair \<and>
   length (history full_pair) = 200 \<and>
   (\<exists>p. pairsData (onmessage [] 5 ''a'' (Kline (btc_tick 100 True)) full_state) ''BTCUSDT'' =
          Some p \<and>
        history p = tl (replicate 200 (seed_row 1) @ [seed_row 100]) \<and>
        length (history p) \<le> 200) \<and>
   (\<exists>p. pairsData (onmessage [] 5 ''a'' (Kline (btc_tick 100 False)) full_state) ''BTCUSDT'' =
          Some p \<and> price p = Some (Num 100) \<and> history p = replicate 200 (seed_row 1)) \<and>
   length (alerts (run two_ticks (init_state wide_fetch))) \<le> 50 \<and>
   pairsData (run [] (init_state wide_fetch)) ''BTCUSDT'' =
     Some (seeded ''btcusdt.p'' (replicate 201 (seed_row 1))) \<and>
   (\<exists>ds klines. wide_fetch ''BTCUSDT'' = Array ds \<and> read_rows ds = Some klines \<and>
      length (history (seeded ''btcusdt.p'' (replicate 201 (seed_row 1)))) \<le>
        max 200 (length klines))"
proof -
  note t = bounded_log_and_history
    [where alerts_c = "[]" and now = 5 and fresh_id = "''a''" and st = logged_state and
       msg = "Kline (btc_tick 100 False)"]
  note u = bounded_log_and_history
    [where alerts_c = "[]" and now = 5 and fresh_id = "''a''" and st = full_state]
  have a: "pairsData logged_state (msg_s (btc_tick 100 False)) = Some (btc_pair 100 100)"
    by (simp add: logged_state_def btc_store_def btc_tick_def)
  have b: "length (alerts logged_state) = 50" by (simp add: logged_state_def)
  have c: "alerts (ws_onmessage 5 ''a'' (Kline (btc_tick 100 False)) logged_state) =
     touch_alert ''a'' 5 #
       replicate 49 \<lparr>alert_id = ''z'', alert_symbol = ''ETHUSDT.P'', timestamp = 0,
           alert_price = Num 1, alert_type = touch\<rparr>"
    using t [THEN conjunct2, THEN conjunct1, rule_format, OF a]
    by (simp add: Let_def btc_pair_def btc_tick_def calculateSingleEMA_def band_of_100
        upper_btc logged_state_def touch_alert_def)
  have d: "length (alerts (onmessage [] 5 ''a'' (Kline (btc_tick 100 False)) logged_state)) \<le> 50"
    using t [THEN conjunct2, THEN conjunct2, THEN conjunct2, THEN conjunct1] b by simp
  have e: "sorted_wrt (\<lambda>a b. timestamp b \<le> timestamp a) (alerts logged_state)"
    by (simp add: logged_state_def sorted_wrt_replicate_refl)
  have e': "\<forall>a \<in> set (alerts logged_state). timestamp a \<le> 5"
    by (simp add: logged_state_def)
  have f: "sorted_wrt (\<lambda>a b. timestamp b \<le> timestamp a)
     (alerts (onmessage [] 5 ''a'' (Kline (btc_tick 100 False)) logged_state))"
    using t [THEN conjunct2, THEN conjunct2, THEN conjunct2, THEN conjunct2, THEN conjunct1]
      e e'
    by blast
  have g: "pairsData full_state (msg_s (btc_tick 100 True)) = Some full_pair"
    by (simp add: full_state_def btc_tick_def)
  have g': "pairsData full_state (msg_s (btc_tick 100 False)) = Some full_pair"
    by (simp add: full_state_def btc_tick_def)
  have h: "length (history full_pair) = 200" by (simp add: full_pair_def)
  note hist = u [THEN conjunct2, THEN conjunct2, THEN conjunct2, THEN conjunct2, THEN conjunct2,
      THEN conjunct1, rule_format]
  have i: "\<exists>p. pairsData (onmessage [] 5 ''a'' (Kline (btc_tick 100 True)) full_state)
            ''BTCUSDT'' = Some p \<and>
        history p = tl (replicate 200 (seed_row 1) @ [seed_row 100]) \<and>
        length (history p) \<le> 200"
    using hist [OF g]
    by (auto simp add: full_pair_def btc_tick_def seed_row_def)
  have j: "\<exists>p. pairsData (onmessage [] 5 ''a'' (Kline (btc_tick 100 False)) full_state)
            ''BTCUSDT'' = Some p \<and> price p = Some (Num 100) \<and>
            history p = replicate 200 (seed_row 1)"
    using hist [OF g']
    by (auto simp add: full_pair_def btc_tick_def)
  have k: "length (alerts (run two_ticks (init_state wide_fetch))) \<le> 50"
    using bounded_log_and_history [where events = two_ticks and fetch = wide_fetch,
        THEN conjunct2, THEN conjunct2, THEN conjunct2, THEN conjunct2, THEN conjunct2,
        THEN conjunct2, THEN conjunct2]
    by blast
  have l: "pairsData (run [] (init_state wide_fetch)) ''BTCUSDT'' =
     Some (seeded ''btcusdt.p'' (replicate 201 (seed_row 1)))"
    using wide_seed by simp
  have m: "\<exists>ds klines. wide_fetch ''BTCUSDT'' = Array ds \<and> read_rows ds = Some klines \<and>
      length (history (seeded ''btcusdt.p'' (replicate 201 (seed_row 1)))) \<le>
        max 200 (length klines)"
    using bounded_log_and_history [where events = "[]" and fetch = wide_fetch,
        THEN conjunct2, THEN conjunct2, THEN conjunct2, THEN conjunct2, THEN conjunct2,
        THEN conjunct2, THEN conjunct2, THEN conjunct2, rule_format, OF l] .
  from a b c d e f g h i j k l m show ?thesis by blast
qed

end
